theory Spec2Isabelle
  imports Main
begin

section \<open>The JavaScript runtime the handlers rely on\<close>

text \<open>
  A JavaScript \<^verbatim>\<open>Date\<close> holds a time value: the milliseconds since the epoch, or NaN
  for an Invalid Date. The model takes \<open>None\<close> for NaN. Time values are integers well
  below \<open>2^53\<close>, where the arithmetic of doubles is exact, so they are modelled as \<open>int\<close>.
\<close>

type_synonym js_date = "int option"

definition msPerMinute :: int where
  "msPerMinute = 60000"

definition msPerHour :: int where
  "msPerHour = 3600000"

definition msPerDay :: int where
  "msPerDay = 86400000"

text \<open>\<^verbatim>\<open>new Date(number)\<close> clips: a time value beyond 8.64e15 ms is an Invalid Date.\<close>

definition TimeClip :: "int \<Rightarrow> js_date" where
  "TimeClip t = (if abs t > 8640000000000000 then None else Some t)"

text \<open>
  The built-ins that read or print text are parameters of the model: \<open>dateParse\<close> is the
  time value of \<^verbatim>\<open>new Date(string)\<close>, \<open>parseInt\<close> is the global \<^verbatim>\<open>parseInt\<close> (\<open>None\<close> for
  NaN), \<open>toISODate\<close> is \<^verbatim>\<open>toISOString().split('T')[0]\<close> of a valid date, \<open>dateToString\<close> is
  \<^verbatim>\<open>toString()\<close> of a valid date, and \<open>tzOffset\<close> is the offset of local time from UTC in
  milliseconds, taken as fixed over the days in question (no daylight-saving change
  inside the computation).
\<close>

record js_runtime =
  dateParse :: "string \<Rightarrow> js_date"
  parseInt :: "string \<Rightarrow> int option"
  toISODate :: "int \<Rightarrow> string"
  dateToString :: "int \<Rightarrow> string"
  tzOffset :: int

text \<open>\<^verbatim>\<open>new Date(x)\<close> for a value that is a string or undefined.\<close>

definition newDate :: "js_runtime \<Rightarrow> string option \<Rightarrow> js_date" where
  "newDate rt x = (case x of None \<Rightarrow> None | Some s \<Rightarrow> dateParse rt s)"

text \<open>
  \<^verbatim>\<open>d.setHours(h, m, s, ms)\<close>: the local day of \<open>d\<close> with the given local time of day.
  An Invalid Date stays invalid.
\<close>

definition setHours :: "js_runtime \<Rightarrow> js_date \<Rightarrow> int \<Rightarrow> int \<Rightarrow> int \<Rightarrow> int \<Rightarrow> js_date" where
  "setHours rt d h m s ms =
     (case d of
        None \<Rightarrow> None
      | Some t \<Rightarrow>
          TimeClip (((t + tzOffset rt) div msPerDay) * msPerDay
                    + h * msPerHour + m * msPerMinute + s * 1000 + ms - tzOffset rt))"

text \<open>\<^verbatim>\<open>d.getHours()\<close>: the local hour of day, NaN for an Invalid Date.\<close>

definition getHours :: "js_runtime \<Rightarrow> js_date \<Rightarrow> int option" where
  "getHours rt d = (case d of None \<Rightarrow> None | Some t \<Rightarrow> Some (((t + tzOffset rt) div msPerHour) mod 24))"

text \<open>Relational operators on dates compare time values; a comparison with NaN is false.\<close>

definition date_less :: "js_date \<Rightarrow> js_date \<Rightarrow> bool" where
  "date_less a b = (case a of None \<Rightarrow> False | Some x \<Rightarrow> (case b of None \<Rightarrow> False | Some y \<Rightarrow> x < y))"

definition num_le :: "int option \<Rightarrow> int \<Rightarrow> bool" where
  "num_le a n = (case a of None \<Rightarrow> False | Some x \<Rightarrow> x \<le> n)"

text \<open>\<^verbatim>\<open>d.toTimeString().slice(0, 5)\<close>: the local time of day as \<^verbatim>\<open>HH:MM\<close>.\<close>

definition digit_char :: "int \<Rightarrow> char" where
  "digit_char d = ''0123456789'' ! nat d"

definition pad2 :: "int \<Rightarrow> string" where
  "pad2 n = [digit_char (n div 10), digit_char (n mod 10)]"

definition toTimeString5 :: "js_runtime \<Rightarrow> int \<Rightarrow> string" where
  "toTimeString5 rt t =
     pad2 (((t + tzOffset rt) div msPerHour) mod 24) @ '':'' @
     pad2 (((t + tzOffset rt) div msPerMinute) mod 60)"

section \<open>GET /api/availability/:date\<close>

text \<open>
  An event of the calendar collaborator, as far as the handler reads it: the texts
  \<^verbatim>\<open>start.dateTime\<close>, \<^verbatim>\<open>start.date\<close>, \<^verbatim>\<open>end.dateTime\<close> and \<^verbatim>\<open>end.date\<close>, each possibly
  undefined.
\<close>

record event_time =
  dateTime :: "string option"
  date :: "string option"

record calendar_event =
  ev_start :: event_time
  ev_end :: event_time

text \<open>\<^verbatim>\<open>a || b\<close> on texts: \<open>a\<close> unless it is undefined or empty.\<close>

definition js_or :: "string option \<Rightarrow> string option \<Rightarrow> string option" where
  "js_or a b = (case a of None \<Rightarrow> b | Some s \<Rightarrow> (if s = [] then b else Some s))"

definition eventStart :: "js_runtime \<Rightarrow> calendar_event \<Rightarrow> js_date" where
  "eventStart rt event = newDate rt (js_or (dateTime (ev_start event)) (date (ev_start event)))"

definition eventEnd :: "js_runtime \<Rightarrow> calendar_event \<Rightarrow> js_date" where
  "eventEnd rt event = newDate rt (js_or (dateTime (ev_end event)) (date (ev_end event)))"

text \<open>
  The outcome of \<^verbatim>\<open>calendar.events.list\<close>: the call throws, or it returns a response
  whose \<^verbatim>\<open>data.items\<close> is a list of events or undefined.
\<close>

datatype list_outcome = List_Throws | List_Returns "calendar_event list option"

record slot =
  time :: string
  available :: bool
  datetime :: int

text \<open>
  The two bodies the handler can send: the success body with status 200, and the body of
  the outer \<^verbatim>\<open>catch\<close> with status 500. \<open>datetime\<close> of a slot is the instant that
  \<^verbatim>\<open>toISOString\<close> prints; \<open>duration_minutes\<close> is \<open>None\<close> where \<^verbatim>\<open>parseInt\<close> gave NaN.
\<close>

datatype availability_response =
  Availability_OK string "slot list" "int option"
| Availability_Failed

definition wh_start :: int where
  "wh_start = 9"

definition wh_end :: int where
  "wh_end = 18"

text \<open>
  The query's \<^verbatim>\<open>duration\<close> with its default: \<^verbatim>\<open>parseInt(120)\<close> is 120, otherwise the text is
  parsed.
\<close>

definition parsed_duration :: "js_runtime \<Rightarrow> string option \<Rightarrow> int option" where
  "parsed_duration rt duration = (case duration of None \<Rightarrow> Some 120 | Some s \<Rightarrow> parseInt rt s)"

text \<open>
  The bounds of the day that the handler sends to the collaborator as \<^verbatim>\<open>timeMin\<close> and
  \<^verbatim>\<open>timeMax\<close>.
\<close>

definition startOfDay :: "js_runtime \<Rightarrow> string \<Rightarrow> js_date" where
  "startOfDay rt dt = setHours rt (dateParse rt dt) 0 0 0 0"

definition endOfDay :: "js_runtime \<Rightarrow> string \<Rightarrow> js_date" where
  "endOfDay rt dt = setHours rt (dateParse rt dt) 23 59 59 999"

text \<open>
  The inner \<^verbatim>\<open>try\<close>: \<^verbatim>\<open>toISOString\<close> throws on an Invalid Date, before the collaborator is
  called, and so does a failing collaborator; both leave \<^verbatim>\<open>existingEvents\<close> empty.
\<close>

definition existingEvents :: "js_runtime \<Rightarrow> string \<Rightarrow> list_outcome \<Rightarrow> calendar_event list" where
  "existingEvents rt dt cal =
     (case startOfDay rt dt of
        None \<Rightarrow> []
      | Some timeMin \<Rightarrow>
          (case endOfDay rt dt of
             None \<Rightarrow> []
           | Some timeMax \<Rightarrow>
               (case cal of
                  List_Throws \<Rightarrow> []
                | List_Returns items \<Rightarrow> (case items of None \<Rightarrow> [] | Some es \<Rightarrow> es))))"

definition slotStart :: "js_runtime \<Rightarrow> string \<Rightarrow> int \<Rightarrow> int \<Rightarrow> js_date" where
  "slotStart rt dt hour minute = setHours rt (dateParse rt dt) hour minute 0 0"

definition slotEnd :: "js_date \<Rightarrow> int option \<Rightarrow> js_date" where
  "slotEnd sStart dur =
     (case sStart of
        None \<Rightarrow> None
      | Some t \<Rightarrow> (case dur of None \<Rightarrow> None | Some m \<Rightarrow> TimeClip (t + m * 60000)))"

definition hasConflict :: "js_runtime \<Rightarrow> calendar_event list \<Rightarrow> js_date \<Rightarrow> js_date \<Rightarrow> bool" where
  "hasConflict rt events sStart sEnd =
     list_ex (\<lambda>event. date_less sStart (eventEnd rt event) \<and> date_less (eventStart rt event) sEnd) events"

text \<open>
  One pass of the inner loop body: the slot is pushed or not. The end-of-day test only
  passes for a valid end, which a valid start alone can have, so the slot that is pushed
  has a start to print.
\<close>

definition slot_step :: "js_runtime \<Rightarrow> string \<Rightarrow> int option \<Rightarrow> calendar_event list \<Rightarrow> int \<Rightarrow> int \<Rightarrow> slot list" where
  "slot_step rt dt dur events hour minute =
     (let sStart = slotStart rt dt hour minute;
          sEnd = slotEnd sStart dur
      in if \<not> hasConflict rt events sStart sEnd \<and> num_le (getHours rt sEnd) wh_end
         then (case sStart of
                 None \<Rightarrow> []
               | Some t \<Rightarrow> [\<lparr>time = toTimeString5 rt t, available = True, datetime = t\<rparr>])
         else [])"

function minute_loop :: "js_runtime \<Rightarrow> string \<Rightarrow> int option \<Rightarrow> calendar_event list \<Rightarrow> int \<Rightarrow> int \<Rightarrow> slot list" where
  "minute_loop rt dt dur events hour minute =
     (if minute < 60
      then slot_step rt dt dur events hour minute @ minute_loop rt dt dur events hour (minute + 30)
      else [])"
  by pat_completeness auto
termination
  by (relation "measure (\<lambda>(rt, dt, dur, events, hour, minute). nat (60 - minute))") auto

function hour_loop :: "js_runtime \<Rightarrow> string \<Rightarrow> int option \<Rightarrow> calendar_event list \<Rightarrow> int \<Rightarrow> slot list" where
  "hour_loop rt dt dur events hour =
     (if hour < wh_end
      then minute_loop rt dt dur events hour 0 @ hour_loop rt dt dur events (hour + 1)
      else [])"
  by pat_completeness auto
termination
  by (relation "measure (\<lambda>(rt, dt, dur, events, hour). nat (wh_end - hour))") auto

declare minute_loop.simps [simp del]
declare hour_loop.simps [simp del]

definition availableSlots :: "js_runtime \<Rightarrow> string \<Rightarrow> int option \<Rightarrow> calendar_event list \<Rightarrow> slot list" where
  "availableSlots rt dt dur events = hour_loop rt dt dur events wh_start"

text \<open>
  The handler. Nothing after the inner \<^verbatim>\<open>try\<close> throws (\<^verbatim>\<open>toISOString\<close> is only reached for a
  valid slot start), so the 500 body of the outer \<^verbatim>\<open>catch\<close> is never sent.
\<close>

definition get_availability :: "js_runtime \<Rightarrow> list_outcome \<Rightarrow> string \<Rightarrow> string option \<Rightarrow> availability_response" where
  "get_availability rt cal dt duration =
     Availability_OK dt
       (availableSlots rt dt (parsed_duration rt duration) (existingEvents rt dt cal))
       (parsed_duration rt duration)"

section \<open>generateBookingId\<close>

text \<open>
  \<^verbatim>\<open>n.toString(36)\<close> for a non-negative integer \<open>n\<close>: the digits of \<open>n\<close> in base 36, most
  significant first, with the lower-case letters for the digits 10 to 35.
\<close>

definition digits36 :: string where
  "digits36 = ''0123456789abcdefghijklmnopqrstuvwxyz''"

function toString36 :: "nat \<Rightarrow> string" where
  "toString36 n = (if n < 36 then [digits36 ! n] else toString36 (n div 36) @ [digits36 ! (n mod 36)])"
  by pat_completeness auto
termination
  by (relation "measure (\<lambda>n. n)") auto

declare toString36.simps [simp del]

text \<open>\<^verbatim>\<open>toUpperCase\<close> on the ASCII letters; every other character stays.\<close>

definition toUpperCase_char :: "char \<Rightarrow> char" where
  "toUpperCase_char c =
     (case map_of (zip ''abcdefghijklmnopqrstuvwxyz'' ''ABCDEFGHIJKLMNOPQRSTUVWXYZ'') c of
        None \<Rightarrow> c
      | Some u \<Rightarrow> u)"

definition toUpperCase :: "string \<Rightarrow> string" where
  "toUpperCase s = map toUpperCase_char s"

text \<open>\<^verbatim>\<open>s.substring(a, b)\<close> for \<open>a \<le> b\<close>.\<close>

definition substring :: "nat \<Rightarrow> nat \<Rightarrow> string \<Rightarrow> string" where
  "substring a b s = take (b - a) (drop a s)"

text \<open>
  The generator reads the clock and the random source: \<open>now\<close> is \<^verbatim>\<open>Date.now()\<close>, the
  milliseconds since the epoch, and \<open>random36\<close> is the text \<^verbatim>\<open>Math.random().toString(36)\<close>.
  The digits that the runtime prints for a double in base 36 are its own choice, so the
  text is an input of the model. None of the calls in the body can throw.
\<close>

definition generateBookingId :: "nat \<Rightarrow> string \<Rightarrow> string" where
  "generateBookingId now random36 =
     (let prefix = ''4EV'';
          timestamp = toUpperCase (toString36 now);
          random = toUpperCase (substring 2 6 random36)
      in prefix @ ''-'' @ timestamp @ ''-'' @ random)"

text \<open>
  What the runtime prints for a double in \<open>[0, 1)\<close> in base 36: \<^verbatim>\<open>0\<close>, or \<^verbatim>\<open>0.\<close> followed
  by at least one base-36 digit.
\<close>

definition radix36_fraction :: "string \<Rightarrow> bool" where
  "radix36_fraction s =
     (s = ''0'' \<or> (take 2 s = ''0.'' \<and> drop 2 s \<noteq> [] \<and> list_all (\<lambda>c. c \<in> set digits36) (drop 2 s)))"

text \<open>The reading of an upper-case base-36 numeral, to state what the timestamp part encodes.\<close>

definition upper36 :: string where
  "upper36 = ''0123456789ABCDEFGHIJKLMNOPQRSTUVWXYZ''"

fun position :: "char \<Rightarrow> string \<Rightarrow> nat" where
  "position c [] = 0"
| "position c (d # ds) = (if c = d then 0 else Suc (position c ds))"

definition fromUpper36 :: "string \<Rightarrow> nat" where
  "fromUpper36 s = foldl (\<lambda>acc c. acc * 36 + position c upper36) 0 s"

section \<open>POST /api/bookings\<close>

subsection \<open>The request and its validation\<close>

text \<open>
  The JSON body, as \<^verbatim>\<open>express.json()\<close> delivers it. A field is absent, a single value, or
  an array of values. The validation library reads a value through its text, so a single
  value is modelled by that text, a string being its own text, and an array by the texts
  of its elements.
\<close>

datatype field = Missing | Text string | Items "string list"

text \<open>
  \<open>duration\<close> is absent, a single value or an array. A value is an integer literal (a JSON
  number or a numeric text, which \<^verbatim>\<open>duration * 60000\<close> coerces alike) or anything else, kept
  as its text.
\<close>

datatype duration_item = Int_Literal int | Not_Int string

datatype body_duration = Duration_Absent | Duration_Value duration_item | Duration_Items "duration_item list"

record booking_body =
  clientName :: field
  clientEmail :: field
  clientPhone :: field
  eventDate :: field
  eventTime :: field
  eventType :: field
  location :: field
  message :: field
  duration :: body_duration

text \<open>
  The validators and sanitizers of the validation library that are applied to free text
  are parameters of the model. \<open>isLength n\<close> is \<^verbatim>\<open>isLength({ min: n })\<close>.
\<close>

record validator_lib =
  trim :: "string \<Rightarrow> string"
  escape :: "string \<Rightarrow> string"
  isLength :: "nat \<Rightarrow> string \<Rightarrow> bool"
  isEmail :: "string \<Rightarrow> bool"
  normalizeEmail :: "string \<Rightarrow> string"
  isISO8601 :: "string \<Rightarrow> bool"

text \<open>
  A standard validator runs on the text of a value, and on an array it runs on each
  element: an absent value is checked as the empty text, and an empty array is not
  checked at all.
\<close>

definition elements :: "field \<Rightarrow> string list" where
  "elements f = (case f of Missing \<Rightarrow> [[]] | Text s \<Rightarrow> [s] | Items xs \<Rightarrow> xs)"

text \<open>
  A standard sanitizer likewise replaces a value by the sanitized text, and an array by
  the array of the sanitized elements.
\<close>

definition sanitize :: "(string \<Rightarrow> string) \<Rightarrow> field \<Rightarrow> field" where
  "sanitize f v = (case v of Missing \<Rightarrow> Text (f []) | Text s \<Rightarrow> Text (f s) | Items xs \<Rightarrow> Items (map f xs))"

text \<open>
  \<^verbatim>\<open>String(v)\<close>, as a template literal or a property key prints a value: an array prints its
  elements joined by commas. Where the handler prints a single value, that value has
  passed a check that only a string passes, or has been turned into a string by a
  sanitizer.
\<close>

fun join :: "string list \<Rightarrow> string" where
  "join [] = []"
| "join [x] = x"
| "join (x # y # ys) = x @ '','' @ join (y # ys)"

definition js_String :: "field \<Rightarrow> string" where
  "js_String v = (case v of Missing \<Rightarrow> ''undefined'' | Text s \<Rightarrow> s | Items xs \<Rightarrow> join xs)"

text \<open>The pattern \<^verbatim>\<open>/^([0-1]?[0-9]|2[0-3]):[0-5][0-9]$/\<close> of \<open>eventTime\<close>.\<close>

definition is_digit :: "char \<Rightarrow> bool" where
  "is_digit c = (c \<in> set ''0123456789'')"

fun matches_time :: "string \<Rightarrow> bool" where
  "matches_time [h, c, m1, m2] =
     (is_digit h \<and> c = CHR '':'' \<and> m1 \<in> set ''012345'' \<and> is_digit m2)"
| "matches_time [h1, h2, c, m1, m2] =
     (((h1 \<in> set ''01'' \<and> is_digit h2) \<or> (h1 = CHR ''2'' \<and> h2 \<in> set ''0123''))
      \<and> c = CHR '':'' \<and> m1 \<in> set ''012345'' \<and> is_digit m2)"
| "matches_time s = False"

definition event_types :: "string list" where
  "event_types = [''consultation'', ''engagement'', ''wedding'', ''followup'']"

record issue =
  param :: string
  msg :: string

text \<open>
  The issues of one chain: one for each checked text that fails the check, all under the
  name of the field.
\<close>

definition field_issues :: "string \<Rightarrow> (string \<Rightarrow> bool) \<Rightarrow> string list \<Rightarrow> issue list" where
  "field_issues name ok texts =
     map (\<lambda>s. \<lparr>param = name, msg = ''Invalid value''\<rparr>) (filter (\<lambda>s. \<not> ok s) texts)"

text \<open>
  \<^verbatim>\<open>optional().isInt({ min: 30, max: 720 })\<close>: an absent value is not checked, a single value
  is checked, and an array is checked element by element.
\<close>

definition item_ok :: "duration_item \<Rightarrow> bool" where
  "item_ok x = (case x of Int_Literal n \<Rightarrow> 30 \<le> n \<and> n \<le> 720 | Not_Int s \<Rightarrow> False)"

definition duration_items :: "body_duration \<Rightarrow> duration_item list" where
  "duration_items d = (case d of Duration_Absent \<Rightarrow> [] | Duration_Value x \<Rightarrow> [x] | Duration_Items xs \<Rightarrow> xs)"

definition duration_issues :: "body_duration \<Rightarrow> issue list" where
  "duration_issues d =
     map (\<lambda>x. \<lparr>param = ''duration'', msg = ''Invalid value''\<rparr>) (filter (\<lambda>x. \<not> item_ok x) (duration_items d))"

text \<open>
  \<^verbatim>\<open>validateBooking\<close> followed by \<^verbatim>\<open>validationResult(req).array()\<close> and the handler's map to
  \<^verbatim>\<open>{ param, msg }\<close>: the issues of the chains, in the order of the chains. \<open>message\<close> has
  no check. A sanitizer that stands before the check in a chain has run when the check
  runs.
\<close>

definition validateBooking :: "validator_lib \<Rightarrow> booking_body \<Rightarrow> issue list" where
  "validateBooking lib b =
     field_issues ''clientName'' (\<lambda>s. isLength lib 2 (trim lib s)) (elements (clientName b)) @
     field_issues ''clientEmail'' (isEmail lib) (elements (clientEmail b)) @
     field_issues ''clientPhone'' (\<lambda>s. isLength lib 10 (trim lib s)) (elements (clientPhone b)) @
     field_issues ''eventDate'' (isISO8601 lib) (elements (eventDate b)) @
     field_issues ''eventTime'' matches_time (elements (eventTime b)) @
     field_issues ''eventType'' (\<lambda>s. s \<in> set event_types) (elements (eventType b)) @
     field_issues ''location'' (\<lambda>s. isLength lib 3 (trim lib s)) (elements (location b)) @
     duration_issues (duration b)"

subsection \<open>The store and the collaborators\<close>

text \<open>
  \<open>eventDate\<close> after the sanitizer \<open>toDate\<close>: a date or null for a single value, an array of
  such for an array.
\<close>

datatype date_field = One_Date js_date | Many_Dates "js_date list"

text \<open>A row of \<open>bookings\<close> holds the values that the handler binds to the insert.\<close>

record booking_row =
  booking_id :: string
  client_name :: field
  client_email :: field
  client_phone :: field
  event_date :: date_field
  event_time :: field
  event_type :: field
  row_location :: field
  row_message :: field
  row_duration :: body_duration
  calendar_event_id :: "string option"

text \<open>The \<open>details\<close> of an audit row are the JSON text of one of two values.\<close>

datatype audit_details = Issues "issue list" | Created string field

record audit_row =
  request_id :: "string option"
  event :: string
  details :: audit_details

record store =
  bookings :: "booking_row list"
  audit_logs :: "audit_row list"

datatype insert_outcome = Insert_Throws | Insert_Returns string

text \<open>
  What the world answers during one request: the clock and the random text read by the
  id generator, the outcome of \<^verbatim>\<open>calendar.events.insert\<close>, whether the insert into
  \<open>bookings\<close> is refused for a reason of the database's own, whether writing the audit row
  throws, and whether Gmail refuses each of the two mails.
\<close>

record world =
  now :: nat
  random36 :: string
  calendar_insert :: insert_outcome
  db_refuses :: bool
  audit_throws :: bool
  confirmation_fails :: bool
  notification_fails :: bool

text \<open>
  The steps of a run. A step is recorded by the operation that performs it, at the moment
  it is called:
  \<^item> \<open>Validate\<close>: the validation middleware has run;
  \<^item> \<open>Generate_Id\<close>: \<^verbatim>\<open>generateBookingId\<close> has read the clock and the random source;
  \<^item> \<open>Calendar_Insert ok\<close>: \<^verbatim>\<open>calendar.events.insert\<close> was called, and returned an event
    if \<open>ok\<close>;
  \<^item> \<open>Persist_Booking ok\<close>: the insert into \<open>bookings\<close> was run, and a row written if \<open>ok\<close>;
  \<^item> \<open>Audit kind ok\<close>: the write of an audit row of that kind was called, and a row
    written if \<open>ok\<close>;
  \<^item> \<open>Notify_Client ok\<close> and \<open>Notify_Business ok\<close>: \<^verbatim>\<open>sendConfirmationEmail\<close> and
    \<^verbatim>\<open>sendBusinessNotification\<close> were called, and the mail was sent if \<open>ok\<close>;
  \<^item> \<open>Respond status\<close>: the response was sent.
  The write of an audit row is called and not awaited, so its place among the steps is
  the place of the call.
\<close>

datatype step =
  Validate
| Generate_Id
| Calendar_Insert bool
| Persist_Booking bool
| Audit string bool
| Notify_Client bool
| Notify_Business bool
| Respond nat

text \<open>The state that a run threads through its operations: the database and the steps so far.\<close>

record system =
  db :: store
  trace :: "step list"

definition record_step :: "step \<Rightarrow> system \<Rightarrow> system" where
  "record_step x s = s\<lparr>trace := trace s @ [x]\<rparr>"

text \<open>The four bodies the handler can send.\<close>

datatype booking_response =
  Validation_Failed "issue list"
| Invalid_DateTime
| Booking_Confirmed string "string option"
| Booking_Failed

definition status :: "booking_response \<Rightarrow> nat" where
  "status r =
     (case r of
        Validation_Failed issues \<Rightarrow> 400
      | Invalid_DateTime \<Rightarrow> 400
      | Booking_Confirmed bid cid \<Rightarrow> 200
      | Booking_Failed \<Rightarrow> 500)"

definition success :: "booking_response \<Rightarrow> bool" where
  "success r = (case r of Booking_Confirmed bid cid \<Rightarrow> True | _ \<Rightarrow> False)"

text \<open>The key \<^verbatim>\<open>error\<close> of a body, a single text, and the key \<^verbatim>\<open>errors\<close>, a list of issues.\<close>

definition error_text :: "booking_response \<Rightarrow> string option" where
  "error_text r =
     (case r of
        Validation_Failed issues \<Rightarrow> None
      | Invalid_DateTime \<Rightarrow> Some ''Invalid date/time format''
      | Booking_Confirmed bid cid \<Rightarrow> None
      | Booking_Failed \<Rightarrow> Some ''Failed to create booking'')"

definition errors :: "booking_response \<Rightarrow> issue list option" where
  "errors r = (case r of Validation_Failed issues \<Rightarrow> Some issues | _ \<Rightarrow> None)"

subsection \<open>The operations of the handler\<close>

definition run_validation :: "validator_lib \<Rightarrow> booking_body \<Rightarrow> system \<Rightarrow> issue list \<times> system" where
  "run_validation lib b s = (validateBooking lib b, record_step Validate s)"

definition generate_id :: "world \<Rightarrow> system \<Rightarrow> string \<times> system" where
  "generate_id w s = (generateBookingId (now w) (random36 w), record_step Generate_Id s)"

text \<open>
  Writing an audit row is wrapped in its own \<^verbatim>\<open>try\<close>: when it throws, nothing is
  appended and the handler goes on.
\<close>

definition audit_log :: "world \<Rightarrow> string option \<Rightarrow> string \<Rightarrow> audit_details \<Rightarrow> system \<Rightarrow> system" where
  "audit_log w requestId kind d s =
     (if audit_throws w then record_step (Audit kind False) s
      else record_step (Audit kind True)
             (s\<lparr>db := (db s)\<lparr>audit_logs := audit_logs (db s) @
                                  [\<lparr>request_id = requestId, event = kind, details = d\<rparr>]\<rparr>\<rparr>))"

text \<open>
  The insert into \<open>bookings\<close> fails when the database refuses it or when its \<open>UNIQUE\<close>
  constraint on \<open>booking_id\<close> is violated.
\<close>

definition insert_fails :: "world \<Rightarrow> store \<Rightarrow> string \<Rightarrow> bool" where
  "insert_fails w st bookingId = (db_refuses w \<or> bookingId \<in> set (map booking_id (bookings st)))"

definition insert_booking :: "world \<Rightarrow> booking_row \<Rightarrow> system \<Rightarrow> bool \<times> system" where
  "insert_booking w row s =
     (if insert_fails w (db s) (booking_id row) then (False, record_step (Persist_Booking False) s)
      else (True, record_step (Persist_Booking True)
                    (s\<lparr>db := (db s)\<lparr>bookings := bookings (db s) @ [row]\<rparr>\<rparr>)))"

text \<open>
  The calendar stage, inside its \<^verbatim>\<open>try\<close>, gives the value of \<^verbatim>\<open>calendarEventId\<close>. Building
  the resource reads \<^verbatim>\<open>eventConfig.title\<close>, which throws when \<^verbatim>\<open>eventTypes[eventType]\<close> is
  undefined, and prints the end of the event with \<^verbatim>\<open>toISOString\<close>, which throws on an
  Invalid Date; then the collaborator is not called. Whatever throws, the id stays null.
\<close>

definition resource_builds :: "field \<Rightarrow> js_date \<Rightarrow> bool" where
  "resource_builds et eEnd = (js_String et \<in> set event_types \<and> (case eEnd of None \<Rightarrow> False | Some e \<Rightarrow> True))"

definition event_id :: "insert_outcome \<Rightarrow> string option" where
  "event_id r = (case r of Insert_Throws \<Rightarrow> None | Insert_Returns i \<Rightarrow> Some i)"

definition returns_event :: "insert_outcome \<Rightarrow> bool" where
  "returns_event r = (case r of Insert_Throws \<Rightarrow> False | Insert_Returns i \<Rightarrow> True)"

definition calendar_try :: "world \<Rightarrow> bool \<Rightarrow> system \<Rightarrow> string option \<times> system" where
  "calendar_try w builds s =
     (if builds
      then (event_id (calendar_insert w), record_step (Calendar_Insert (returns_event (calendar_insert w))) s)
      else (None, s))"

text \<open>
  \<^verbatim>\<open>sendConfirmationEmail\<close> calls \<^verbatim>\<open>eventType.charAt\<close> while it builds the mail, which throws
  unless \<open>eventType\<close> is a string; otherwise it hands the mail to Gmail. The handler
  catches whatever it throws.
\<close>

definition is_string :: "field \<Rightarrow> bool" where
  "is_string v = (case v of Text s \<Rightarrow> True | _ \<Rightarrow> False)"

definition sendConfirmationEmail :: "world \<Rightarrow> field \<Rightarrow> system \<Rightarrow> system" where
  "sendConfirmationEmail w et s = record_step (Notify_Client (is_string et \<and> \<not> confirmation_fails w)) s"

definition sendBusinessNotification :: "world \<Rightarrow> system \<Rightarrow> system" where
  "sendBusinessNotification w s = record_step (Notify_Business (\<not> notification_fails w)) s"

definition respond :: "booking_response \<Rightarrow> system \<Rightarrow> booking_response \<times> system" where
  "respond r s = (r, record_step (Respond (status r)) s)"

subsection \<open>The handler\<close>

text \<open>
  The body after the sanitizers: \<open>toDate\<close> turns a text of \<open>eventDate\<close> into a date, or into
  null where the text does not parse.
\<close>

definition toDate :: "js_runtime \<Rightarrow> string \<Rightarrow> js_date" where
  "toDate rt s = dateParse rt s"

definition toDate_field :: "js_runtime \<Rightarrow> field \<Rightarrow> date_field" where
  "toDate_field rt v =
     (case v of
        Missing \<Rightarrow> One_Date (toDate rt [])
      | Text s \<Rightarrow> One_Date (toDate rt s)
      | Items xs \<Rightarrow> Many_Dates (map (toDate rt) xs))"

text \<open>
  \<^verbatim>\<open>eventDate instanceof Date ? eventDate.toISOString().split('T')[0] : eventDate\<close>, as the
  template literal prints it: null prints as \<^verbatim>\<open>null\<close>, and an array prints its elements
  joined by commas, a date among them by \<^verbatim>\<open>toString\<close> and null as the empty text.
\<close>

definition dateStr :: "js_runtime \<Rightarrow> date_field \<Rightarrow> string" where
  "dateStr rt d =
     (case d of
        One_Date x \<Rightarrow> (case x of None \<Rightarrow> ''null'' | Some t \<Rightarrow> toISODate rt t)
      | Many_Dates xs \<Rightarrow> join (map (\<lambda>x. case x of None \<Rightarrow> [] | Some t \<Rightarrow> dateToString rt t) xs))"

definition booking_eventStart :: "js_runtime \<Rightarrow> booking_body \<Rightarrow> js_date" where
  "booking_eventStart rt b =
     dateParse rt (dateStr rt (toDate_field rt (eventDate b)) @ ''T'' @ js_String (eventTime b) @ '':00'')"

text \<open>
  \<^verbatim>\<open>duration = 120\<close> by default, and then the number that \<^verbatim>\<open>duration * 60000\<close> makes of it:
  an empty array is 0, an array of one element is that element, a longer array is NaN. A
  value that is not an integer literal does not pass the validation; as a number it is
  taken as NaN here.
\<close>

definition item_value :: "duration_item \<Rightarrow> int option" where
  "item_value x = (case x of Int_Literal n \<Rightarrow> Some n | Not_Int s \<Rightarrow> None)"

definition duration_value :: "body_duration \<Rightarrow> int option" where
  "duration_value d =
     (case d of
        Duration_Absent \<Rightarrow> Some 120
      | Duration_Value x \<Rightarrow> item_value x
      | Duration_Items xs \<Rightarrow> (case xs of [] \<Rightarrow> Some 0 | [x] \<Rightarrow> item_value x | x # y # ys \<Rightarrow> None))"

definition booking_eventEnd :: "int \<Rightarrow> int option \<Rightarrow> js_date" where
  "booking_eventEnd es dur = (case dur of None \<Rightarrow> None | Some m \<Rightarrow> TimeClip (es + m * 60000))"

definition with_default :: "body_duration \<Rightarrow> body_duration" where
  "with_default d = (case d of Duration_Absent \<Rightarrow> Duration_Value (Int_Literal 120) | _ \<Rightarrow> d)"

text \<open>An absent \<open>message\<close> is left alone by its chain, which is \<^verbatim>\<open>optional()\<close>.\<close>

definition sanitize_optional :: "(string \<Rightarrow> string) \<Rightarrow> field \<Rightarrow> field" where
  "sanitize_optional f v = (case v of Missing \<Rightarrow> Missing | _ \<Rightarrow> sanitize f v)"

definition new_row :: "js_runtime \<Rightarrow> validator_lib \<Rightarrow> booking_body \<Rightarrow> string \<Rightarrow> string option \<Rightarrow> booking_row" where
  "new_row rt lib b bookingId calendarEventId =
     \<lparr>booking_id = bookingId,
      client_name = sanitize (\<lambda>s. escape lib (trim lib s)) (clientName b),
      client_email = sanitize (normalizeEmail lib) (clientEmail b),
      client_phone = sanitize (trim lib) (clientPhone b),
      event_date = toDate_field rt (eventDate b),
      event_time = eventTime b,
      event_type = eventType b,
      row_location = sanitize (\<lambda>s. escape lib (trim lib s)) (location b),
      row_message = sanitize_optional (\<lambda>s. escape lib (trim lib s)) (message b),
      row_duration = with_default (duration b),
      calendar_event_id = calendarEventId\<rparr>"

text \<open>
  The handler, as the sequence of its operations. A failing insert into \<open>bookings\<close>
  rejects the awaited promise, which the outer \<^verbatim>\<open>catch\<close> answers with status 500.
\<close>

definition booking_pipeline ::
  "js_runtime \<Rightarrow> validator_lib \<Rightarrow> world \<Rightarrow> string option \<Rightarrow> booking_body \<Rightarrow> system
     \<Rightarrow> booking_response \<times> system" where
  "booking_pipeline rt lib w requestId b s0 =
     (let validated = run_validation lib b s0;
          issues = fst validated;
          s1 = snd validated
      in if issues \<noteq> []
         then respond (Validation_Failed issues)
                (audit_log w requestId ''validation_failed'' (Issues issues) s1)
         else
           (let generated = generate_id w s1;
                bookingId = fst generated;
                s2 = snd generated
            in case booking_eventStart rt b of
                 None \<Rightarrow> respond Invalid_DateTime s2
               | Some es \<Rightarrow>
                   (let eEnd = booking_eventEnd es (duration_value (duration b));
                        tried = calendar_try w (resource_builds (eventType b) eEnd) s2;
                        calendarEventId = fst tried;
                        s3 = snd tried;
                        inserted = insert_booking w (new_row rt lib b bookingId calendarEventId) s3;
                        s4 = snd inserted
                    in if fst inserted
                       then (let s5 = audit_log w requestId ''booking_created''
                                        (Created bookingId (sanitize (normalizeEmail lib) (clientEmail b))) s4;
                                 s6 = sendConfirmationEmail w (eventType b) s5;
                                 s7 = sendBusinessNotification w s6
                             in respond (Booking_Confirmed bookingId calendarEventId) s7)
                       else respond Booking_Failed s4)))"

text \<open>
  One request against a store: the response, the store after the request, and the steps
  of the run.
\<close>

definition post_bookings ::
  "js_runtime \<Rightarrow> validator_lib \<Rightarrow> world \<Rightarrow> string option \<Rightarrow> store \<Rightarrow> booking_body
     \<Rightarrow> booking_response \<times> store \<times> step list" where
  "post_bookings rt lib w requestId st b =
     (let run = booking_pipeline rt lib w requestId b \<lparr>db = st, trace = []\<rparr>
      in (fst run, db (snd run), trace (snd run)))"

section \<open>Notions of the specification\<close>

definition available_slots :: "availability_response \<Rightarrow> slot list" where
  "available_slots r = (case r of Availability_OK d sl m \<Rightarrow> sl | Availability_Failed \<Rightarrow> [])"

text \<open>The candidate starts of a day: each hour from 9 to 17, at minute 0 and minute 30.\<close>

definition grid :: "(int \<times> int) list" where
  "grid = concat (map (\<lambda>h. map (Pair h) [0, 30]) [9..17])"

text \<open>
  The start and the end of the working hours of the local day of a date: 09:00 and 18:00.
\<close>

definition workingHoursStart :: "js_runtime \<Rightarrow> string \<Rightarrow> js_date" where
  "workingHoursStart rt dt = setHours rt (dateParse rt dt) wh_start 0 0 0"

definition workingHoursEnd :: "js_runtime \<Rightarrow> string \<Rightarrow> js_date" where
  "workingHoursEnd rt dt = setHours rt (dateParse rt dt) wh_end 0 0 0"

text \<open>
  The unfiltered candidate sequence: the slot of every candidate start that passes the
  handler's end-of-day test, with no regard to busy intervals.
\<close>

definition candidate_slot :: "js_runtime \<Rightarrow> string \<Rightarrow> int option \<Rightarrow> int \<times> int \<Rightarrow> slot list" where
  "candidate_slot rt dt dur hm =
     (case slotStart rt dt (fst hm) (snd hm) of
        None \<Rightarrow> []
      | Some t \<Rightarrow>
          (if num_le (getHours rt (slotEnd (Some t) dur)) wh_end
           then [\<lparr>time = toTimeString5 rt t, available = True, datetime = t\<rparr>]
           else []))"

definition candidate_slots :: "js_runtime \<Rightarrow> string \<Rightarrow> int option \<Rightarrow> slot list" where
  "candidate_slots rt dt dur = concat (map (candidate_slot rt dt dur) grid)"

section \<open>A concrete scenario\<close>

text \<open>
  A server whose local time is UTC, with the values of the built-ins on the texts that the
  scenario uses: the 20th of August 2025 starts at 1755648000000 ms.
\<close>

definition scenario_runtime :: js_runtime where
  "scenario_runtime =
     \<lparr>dateParse = (\<lambda>s. if s = ''2025-08-20'' then Some 1755648000000
                      else if s = ''2025-08-21'' then Some 1755734400000
                      else if s = ''2025-08-20T10:00:00Z'' then Some 1755684000000
                      else if s = ''2025-08-20T10:30:00Z'' then Some 1755685800000
                      else if s = ''2025-08-20T10:00:00'' then Some 1755684000000
                      else None),
      parseInt = (\<lambda>s. if s = ''60'' then Some 60 else if s = ''600'' then Some 600 else None),
      toISODate = (\<lambda>t. if t = 1755648000000 then ''2025-08-20'' else []),
      dateToString = (\<lambda>t. if t = 1755648000000
                           then ''Wed Aug 20 2025 00:00:00 GMT+0000 (Coordinated Universal Time)'' else []),
      tzOffset = 0\<rparr>"

text \<open>A busy interval from 10:00 to 10:30 on that day.\<close>

definition scenario_event :: calendar_event where
  "scenario_event =
     \<lparr>ev_start = \<lparr>dateTime = Some ''2025-08-20T10:00:00Z'', date = None\<rparr>,
      ev_end = \<lparr>dateTime = Some ''2025-08-20T10:30:00Z'', date = None\<rparr>\<rparr>"

text \<open>
  An event of the whole day, which carries dates and no times: its start has no
  \<open>dateTime\<close>, its end an empty one.
\<close>

definition scenario_all_day :: calendar_event where
  "scenario_all_day =
     \<lparr>ev_start = \<lparr>dateTime = None, date = Some ''2025-08-20''\<rparr>,
      ev_end = \<lparr>dateTime = Some [], date = Some ''2025-08-21''\<rparr>\<rparr>"

text \<open>
  A booking for that day at 10:00, with the values of the validation library on its
  texts, while the calendar collaborator is unreachable and everything else works.
\<close>

definition scenario_lib :: validator_lib where
  "scenario_lib =
     \<lparr>trim = (\<lambda>s. s),
      escape = (\<lambda>s. s),
      isLength = (\<lambda>n s. n \<le> length s),
      isEmail = (\<lambda>s. s = ''ana@example.com''),
      normalizeEmail = (\<lambda>s. s),
      isISO8601 = (\<lambda>s. s = ''2025-08-20'' \<or> s = ''2025-W34-3'')\<rparr>"

definition scenario_body :: booking_body where
  "scenario_body =
     \<lparr>clientName = Text ''Ana Diaz'',
      clientEmail = Text ''ana@example.com'',
      clientPhone = Text ''5551234567'',
      eventDate = Text ''2025-08-20'',
      eventTime = Text ''10:00'',
      eventType = Text ''wedding'',
      location = Text ''Golden Gate Park'',
      message = Missing,
      duration = Duration_Value (Int_Literal 60)\<rparr>"

definition scenario_world :: world where
  "scenario_world =
     \<lparr>now = 1755700000000,
      random36 = ''0.4fzyo82mvyr'',
      calendar_insert = Insert_Throws,
      db_refuses = False,
      audit_throws = False,
      confirmation_fails = False,
      notification_fails = False\<rparr>"

definition empty_store :: store where
  "empty_store = \<lparr>bookings = [], audit_logs = []\<rparr>"

section \<open>The slot loop\<close>

lemma availableSlots_grid:
  "availableSlots rt dt dur es = concat (map (\<lambda>hm. slot_step rt dt dur es (fst hm) (snd hm)) grid)"
  by (simp add: availableSlots_def grid_def hour_loop.simps minute_loop.simps wh_start_def wh_end_def upto.simps)

lemma slot_step_no_events:
  "slot_step rt dt dur [] h m = candidate_slot rt dt dur (h, m)"
  by (simp add: slot_step_def candidate_slot_def hasConflict_def Let_def split: option.splits)

lemma existingEvents_throws: "existingEvents rt dt List_Throws = []"
  by (simp add: existingEvents_def split: option.splits)

lemma existingEvents_returns:
  "startOfDay rt dt = Some timeMin \<Longrightarrow> endOfDay rt dt = Some timeMax
     \<Longrightarrow> existingEvents rt dt (List_Returns (Some es)) = es"
  by (simp add: existingEvents_def)

lemma slot_step_eq:
  "slot_step rt dt dur es h m =
     (if hasConflict rt es (slotStart rt dt h m) (slotEnd (slotStart rt dt h m) dur) then []
      else candidate_slot rt dt dur (h, m))"
proof (cases "slotStart rt dt h m")
  case None
  then show ?thesis by (simp add: slot_step_def candidate_slot_def Let_def)
next
  case (Some t)
  then show ?thesis by (simp add: slot_step_def candidate_slot_def Let_def)
qed

lemma slot_step_sub: "set (slot_step rt dt dur es h m) \<subseteq> set (candidate_slot rt dt dur (h, m))"
  by (simp add: slot_step_eq)

lemma mem_candidate_slot:
  "sl \<in> set (candidate_slot rt dt dur hm) \<longleftrightarrow>
     (slotStart rt dt (fst hm) (snd hm) = Some (datetime sl)
      \<and> num_le (getHours rt (slotEnd (Some (datetime sl)) dur)) wh_end
      \<and> sl = \<lparr>time = toTimeString5 rt (datetime sl), available = True, datetime = datetime sl\<rparr>)"
proof (cases "slotStart rt dt (fst hm) (snd hm)")
  case None
  then show ?thesis by (simp add: candidate_slot_def)
next
  case (Some t)
  then show ?thesis by (auto simp add: candidate_slot_def)
qed

lemma mem_availableSlots:
  "sl \<in> set (availableSlots rt dt dur es) \<longleftrightarrow>
     (\<exists>hm \<in> set grid.
        sl \<in> set (candidate_slot rt dt dur hm)
        \<and> \<not> hasConflict rt es (Some (datetime sl)) (slotEnd (Some (datetime sl)) dur))"
proof -
  have "sl \<in> set (slot_step rt dt dur es (fst hm) (snd hm)) \<longleftrightarrow>
          (sl \<in> set (candidate_slot rt dt dur hm)
           \<and> \<not> hasConflict rt es (Some (datetime sl)) (slotEnd (Some (datetime sl)) dur))" for hm
    using mem_candidate_slot [of sl rt dt dur hm]
    by (cases hm) (auto simp add: slot_step_eq)
  then show ?thesis
    by (simp add: availableSlots_grid)
qed

lemma slotEnd_Some:
  "num_le (getHours rt (slotEnd (Some s) (Some M))) wh_end \<Longrightarrow> slotEnd (Some s) (Some M) = Some (s + M * 60000)"
  by (simp add: slotEnd_def TimeClip_def getHours_def num_le_def split: if_splits)

lemma hasConflict_overlap:
  "hasConflict rt es (Some s) (Some e') \<longleftrightarrow>
     (\<exists>e \<in> set es. \<exists>a b. eventStart rt e = Some a \<and> eventEnd rt e = Some b \<and> s < b \<and> a < e')"
proof -
  have "(date_less (Some s) (eventEnd rt e) \<and> date_less (eventStart rt e) (Some e')) \<longleftrightarrow>
          (\<exists>a b. eventStart rt e = Some a \<and> eventEnd rt e = Some b \<and> s < b \<and> a < e')" for e
    by (cases "eventStart rt e"; cases "eventEnd rt e") (simp_all add: date_less_def)
  then show ?thesis
    by (simp add: hasConflict_def list_ex_iff)
qed

lemma hour_of_day:
  assumes "0 \<le> c" and "c < msPerDay"
  shows "((q * msPerDay + c) div msPerHour) mod 24 = c div msPerHour"
proof -
  have e: "q * msPerDay + c = c + (q * 24) * msPerHour"
    by (simp add: msPerDay_def msPerHour_def)
  have "(c + (q * 24) * msPerHour) div msPerHour = c div msPerHour + q * 24"
    by (simp add: msPerHour_def)
  then have "(q * msPerDay + c) div msPerHour = c div msPerHour + q * 24"
    by (simp only: e)
  moreover have "0 \<le> c div msPerHour" and "c div msPerHour < 24"
    using assms by (simp_all add: msPerDay_def msPerHour_def)
  ultimately show ?thesis
    by simp
qed

lemma minute_of_hour:
  "((q * msPerDay + c) div msPerMinute) mod 60 = (c div msPerMinute) mod 60"
proof -
  have e: "q * msPerDay + c = c + (q * 1440) * msPerMinute"
    by (simp add: msPerDay_def msPerMinute_def)
  have "(c + (q * 1440) * msPerMinute) div msPerMinute = c div msPerMinute + (q * 24) * 60"
    by (simp add: msPerMinute_def)
  then have "(q * msPerDay + c) div msPerMinute = c div msPerMinute + (q * 24) * 60"
    by (simp only: e)
  then show ?thesis
    by (simp only: mod_mult_self1)
qed

lemma local_day_bounds:
  "(x div msPerDay) * msPerDay \<le> x \<and> x < (x div msPerDay) * msPerDay + msPerDay"
  by (simp add: msPerDay_def) presburger

lemma candidate_slot_hour:
  assumes dp: "dateParse rt dt = Some t0"
    and t0: "abs t0 \<le> 8000000000000000"
    and tz: "abs (tzOffset rt) \<le> 86400000"
    and h: "9 \<le> h" "h \<le> 17"
    and m: "m = 0 \<or> m = 30"
  shows "candidate_slot rt dt (Some 60) (h, m) =
           [\<lparr>time = pad2 h @ '':'' @ pad2 m, available = True,
             datetime = ((t0 + tzOffset rt) div msPerDay) * msPerDay + h * msPerHour + m * msPerMinute - tzOffset rt\<rparr>]"
proof -
  let ?q = "(t0 + tzOffset rt) div msPerDay"
  let ?c = "h * msPerHour + m * msPerMinute"
  let ?s = "?q * msPerDay + ?c - tzOffset rt"
  have b: "?q * msPerDay \<le> t0 + tzOffset rt" "t0 + tzOffset rt < ?q * msPerDay + msPerDay"
    using local_day_bounds [of "t0 + tzOffset rt"] by simp_all
  have c: "0 \<le> ?c" "?c < msPerDay" "0 \<le> ?c + msPerHour" "?c + msPerHour < msPerDay"
    using h m by (auto simp add: msPerHour_def msPerMinute_def msPerDay_def)
  have start: "slotStart rt dt h m = Some ?s"
    using b c t0 tz dp by (simp add: slotStart_def setHours_def TimeClip_def msPerDay_def msPerHour_def)
  have send: "slotEnd (Some ?s) (Some 60) = Some (?s + msPerHour)"
    using b c t0 tz by (simp add: slotEnd_def TimeClip_def msPerDay_def msPerHour_def)
  have "((?q * msPerDay + (?c + msPerHour)) div msPerHour) mod 24 = (?c + msPerHour) div msPerHour"
    using c(3,4) by (rule hour_of_day)
  moreover have "(?c + msPerHour) div msPerHour = h + 1"
    using m by (auto simp add: msPerHour_def msPerMinute_def)
  moreover have "?s + msPerHour + tzOffset rt = ?q * msPerDay + (?c + msPerHour)"
    by simp
  ultimately have "((?s + msPerHour + tzOffset rt) div msPerHour) mod 24 = h + 1"
    by (simp only:)
  then have fits: "num_le (getHours rt (slotEnd (Some ?s) (Some 60))) wh_end"
    using h by (simp add: send getHours_def num_le_def wh_end_def)
  have s: "?s + tzOffset rt = ?q * msPerDay + ?c"
    by simp
  have "((?q * msPerDay + ?c) div msPerHour) mod 24 = ?c div msPerHour"
    using c(1,2) by (rule hour_of_day)
  moreover have "?c div msPerHour = h"
    using m by (auto simp add: msPerHour_def msPerMinute_def)
  ultimately have hh: "((?s + tzOffset rt) div msPerHour) mod 24 = h"
    by (simp only: s)
  have "?c div msPerMinute = h * 60 + m"
    by (simp add: msPerHour_def msPerMinute_def)
  moreover have "(h * 60 + m) mod 60 = m"
    using m by auto
  ultimately have "((?q * msPerDay + ?c) div msPerMinute) mod 60 = m"
    by (simp only: minute_of_hour)
  then have mm: "((?s + tzOffset rt) div msPerMinute) mod 60 = m"
    by (simp only: s)
  show ?thesis
    by (simp only: candidate_slot_def fst_conv snd_conv start option.case fits if_True toTimeString5_def hh mm) simp
qed

lemma grid_bounds: "hm \<in> set grid \<Longrightarrow> 9 \<le> fst hm \<and> fst hm \<le> 17 \<and> (snd hm = 0 \<or> snd hm = 30)"
  by (auto simp add: grid_def upto.simps)

lemma hour_of_any:
  "((q * msPerDay + c) div msPerHour) mod 24 = (c div msPerHour) mod 24"
proof -
  have e: "q * msPerDay + c = c + (q * 24) * msPerHour"
    by (simp add: msPerDay_def msPerHour_def)
  have "(c + (q * 24) * msPerHour) div msPerHour = c div msPerHour + q * 24"
    by (simp add: msPerHour_def)
  then have "(q * msPerDay + c) div msPerHour = c div msPerHour + q * 24"
    by (simp only: e)
  then show ?thesis
    by (simp only: mod_mult_self1)
qed

lemma candidate_slot_nonempty:
  assumes dp: "dateParse rt dt = Some t0"
    and t0: "abs t0 \<le> 8000000000000000"
    and tz: "abs (tzOffset rt) \<le> 86400000"
    and M: "abs M \<le> 1000000000"
    and h: "9 \<le> h" "h \<le> 17"
    and fits: "(h + M div 60) mod 24 \<le> 18"
  shows "candidate_slot rt dt (Some M) (h, 0) \<noteq> []"
proof -
  let ?q = "(t0 + tzOffset rt) div msPerDay"
  let ?s = "?q * msPerDay + h * msPerHour - tzOffset rt"
  have b: "?q * msPerDay \<le> t0 + tzOffset rt" "t0 + tzOffset rt < ?q * msPerDay + msPerDay"
    using local_day_bounds [of "t0 + tzOffset rt"] by simp_all
  have start: "slotStart rt dt h 0 = Some ?s"
    using b h t0 tz dp by (simp add: slotStart_def setHours_def TimeClip_def msPerDay_def msPerHour_def)
  have send: "slotEnd (Some ?s) (Some M) = Some (?s + M * 60000)"
    using b h t0 tz M by (simp add: slotEnd_def TimeClip_def msPerDay_def msPerHour_def)
  have "?s + M * 60000 + tzOffset rt = ?q * msPerDay + (h * msPerHour + M * 60000)"
    by simp
  then have "((?s + M * 60000 + tzOffset rt) div msPerHour) mod 24 = ((h * msPerHour + M * 60000) div msPerHour) mod 24"
    by (simp only: hour_of_any)
  moreover have "(h * msPerHour + M * 60000) div msPerHour = h + M div 60"
    by (simp add: msPerHour_def)
  ultimately have "((?s + M * 60000 + tzOffset rt) div msPerHour) mod 24 = (h + M div 60) mod 24"
    by (simp only:)
  then have "num_le (getHours rt (slotEnd (Some ?s) (Some M))) wh_end"
    using fits by (simp add: send getHours_def num_le_def wh_end_def)
  then show ?thesis
    by (simp add: candidate_slot_def start)
qed

lemmas scenario_simps =
  scenario_runtime_def scenario_event_def get_availability_def available_slots_def parsed_duration_def
  existingEvents_def startOfDay_def endOfDay_def setHours_def TimeClip_def msPerDay_def msPerHour_def msPerMinute_def
  availableSlots_grid grid_def upto.simps slot_step_def slotStart_def slotEnd_def hasConflict_def
  getHours_def num_le_def wh_end_def wh_start_def toTimeString5_def pad2_def digit_char_def Let_def
  date_less_def eventStart_def eventEnd_def newDate_def js_or_def workingHoursEnd_def workingHoursStart_def

section \<open>Properties of the availability handler\<close>

text \<open>
  C4. When the call to the calendar collaborator fails, the handler answers with the
  success body, and its slots are the full unfiltered candidate sequence: the same answer
  as for a calendar with no events, and every slot that any answer of the calendar could
  leave is among them.
\<close>

theorem calendar_failure_yields_all_candidates:
  "get_availability rt List_Throws dt q = Availability_OK dt (candidate_slots rt dt (parsed_duration rt q)) (parsed_duration rt q)
   \<and> get_availability rt List_Throws dt q = get_availability rt (List_Returns (Some [])) dt q
   \<and> set (available_slots (get_availability rt cal dt q)) \<subseteq> set (available_slots (get_availability rt List_Throws dt q))"
proof -
  have a: "availableSlots rt dt d [] = candidate_slots rt dt d" for d
    by (simp add: availableSlots_grid candidate_slots_def slot_step_no_events)
  have b: "existingEvents rt dt (List_Returns (Some [])) = []"
    by (simp add: existingEvents_def split: option.splits)
  have c: "set (availableSlots rt dt d es) \<subseteq> set (candidate_slots rt dt d)" for d es
    using slot_step_sub by (fastforce simp add: availableSlots_grid candidate_slots_def)
  show ?thesis
    using c by (simp add: get_availability_def existingEvents_throws a b available_slots_def)
qed

text \<open>
  The same for the list of events that the handler works with, whatever the call to the
  collaborator gave.
\<close>

lemma dropped_iff_overlap_of_existing:
  assumes "(h, m) \<in> set grid"
    and "slotStart rt dt h m = Some s"
    and "parsed_duration rt q = Some M"
    and "num_le (getHours rt (slotEnd (Some s) (Some M))) wh_end"
    and "existingEvents rt dt cal = events"
  shows "(s \<notin> set (map datetime (available_slots (get_availability rt cal dt q)))
           \<longleftrightarrow> (\<exists>e \<in> set events. \<exists>a b. eventStart rt e = Some a \<and> eventEnd rt e = Some b
                   \<and> s < b \<and> s + M * 60000 > a))
         \<and> (\<forall>sl \<in> set (available_slots (get_availability rt cal dt q)).
              \<forall>e \<in> set events. \<forall>a b. eventStart rt e = Some a \<and> eventEnd rt e = Some b
                \<longrightarrow> \<not> (datetime sl < b \<and> datetime sl + M * 60000 > a))"
proof -
  let ?slots = "availableSlots rt dt (Some M) events"
  let ?overlap = "\<lambda>t. \<exists>e \<in> set events. \<exists>a b. eventStart rt e = Some a \<and> eventEnd rt e = Some b
                   \<and> t < b \<and> t + M * 60000 > a"
  have slots: "available_slots (get_availability rt cal dt q) = ?slots"
    using assms(3,5) by (simp add: get_availability_def available_slots_def)
  have ret: "\<not> ?overlap (datetime sl)" if "sl \<in> set ?slots" for sl
  proof -
    from that obtain hm where hm: "sl \<in> set (candidate_slot rt dt (Some M) hm)"
      and nc: "\<not> hasConflict rt events (Some (datetime sl)) (slotEnd (Some (datetime sl)) (Some M))"
      unfolding mem_availableSlots by blast
    from hm have "num_le (getHours rt (slotEnd (Some (datetime sl)) (Some M))) wh_end"
      unfolding mem_candidate_slot by blast
    then have "slotEnd (Some (datetime sl)) (Some M) = Some (datetime sl + M * 60000)"
      by (rule slotEnd_Some)
    with nc show ?thesis
      by (simp add: hasConflict_overlap)
  qed
  have keep: "s \<in> set (map datetime ?slots)" if "\<not> ?overlap s"
  proof -
    let ?sl = "\<lparr>time = toTimeString5 rt s, available = True, datetime = s\<rparr>"
    have e: "slotEnd (Some s) (Some M) = Some (s + M * 60000)"
      using assms(4) by (rule slotEnd_Some)
    have "?sl \<in> set (candidate_slot rt dt (Some M) (h, m))"
      using assms(2,4) by (simp add: mem_candidate_slot)
    moreover have "\<not> hasConflict rt events (Some s) (slotEnd (Some s) (Some M))"
      using that by (simp add: e hasConflict_overlap)
    ultimately have "?sl \<in> set ?slots"
      using assms(1) unfolding mem_availableSlots by force
    then have "datetime ?sl \<in> datetime ` set ?slots"
      by (rule imageI)
    then show ?thesis by simp
  qed
  have "s \<notin> set (map datetime ?slots) \<longleftrightarrow> ?overlap s"
    using keep ret by auto
  moreover have "\<forall>sl \<in> set ?slots. \<forall>e \<in> set events. \<forall>a b. eventStart rt e = Some a \<and> eventEnd rt e = Some b
                \<longrightarrow> \<not> (datetime sl < b \<and> datetime sl + M * 60000 > a)"
    using ret by blast
  ultimately show ?thesis
    unfolding slots by blast
qed

text \<open>
  C3. Let \<open>s\<close> be a candidate start of the day that passes the end-of-day test for the
  duration \<open>M\<close>, and let \<open>events\<close> be the list of busy intervals that the calendar
  collaborator returns, for a day whose bounds are valid dates, so that the collaborator
  is asked. The slot at \<open>s\<close> is dropped if and only if some event of the list with start \<open>a\<close>
  and end \<open>b\<close> has \<open>s < b\<close> and \<open>s + M > a\<close>, in milliseconds: the half-open overlap, where
  touching at a boundary is no conflict. So no returned slot overlaps a busy interval of
  the list.
\<close>

theorem slot_dropped_iff_overlap:
  assumes "(h, m) \<in> set grid"
    and "slotStart rt dt h m = Some s"
    and "parsed_duration rt q = Some M"
    and "num_le (getHours rt (slotEnd (Some s) (Some M))) wh_end"
    and "startOfDay rt dt = Some timeMin"
    and "endOfDay rt dt = Some timeMax"
  shows "(s \<notin> set (map datetime (available_slots (get_availability rt (List_Returns (Some events)) dt q)))
           \<longleftrightarrow> (\<exists>e \<in> set events. \<exists>a b. eventStart rt e = Some a \<and> eventEnd rt e = Some b
                   \<and> s < b \<and> s + M * 60000 > a))
         \<and> (\<forall>sl \<in> set (available_slots (get_availability rt (List_Returns (Some events)) dt q)).
              \<forall>e \<in> set events. \<forall>a b. eventStart rt e = Some a \<and> eventEnd rt e = Some b
                \<longrightarrow> \<not> (datetime sl < b \<and> datetime sl + M * 60000 > a))"
proof -
  have "existingEvents rt dt (List_Returns (Some events)) = events"
    using assms(5,6) by (rule existingEvents_returns)
  with assms(1,2,3,4) show ?thesis
    by (rule dropped_iff_overlap_of_existing)
qed

text \<open>
  In the scenario, with the busy interval from 10:00 to 10:30 and 60 minutes, the slot at
  10:00 is dropped and the slot at 09:00, which ends where the interval starts, is kept.
  When the collaborator returns the event of the whole day after it, the slot at 09:00 is
  dropped too.
\<close>

theorem slot_dropped_iff_overlap_witness:
  "(10, 0) \<in> set grid
   \<and> slotStart scenario_runtime ''2025-08-20'' 10 0 = Some 1755684000000
   \<and> (9, 0) \<in> set grid
   \<and> slotStart scenario_runtime ''2025-08-20'' 9 0 = Some 1755680400000
   \<and> parsed_duration scenario_runtime (Some ''60'') = Some 60
   \<and> num_le (getHours scenario_runtime (slotEnd (Some 1755684000000) (Some 60))) wh_end
   \<and> num_le (getHours scenario_runtime (slotEnd (Some 1755680400000) (Some 60))) wh_end
   \<and> startOfDay scenario_runtime ''2025-08-20'' = Some 1755648000000
   \<and> endOfDay scenario_runtime ''2025-08-20'' = Some 1755734399999
   \<and> eventStart scenario_runtime scenario_event = Some 1755684000000
   \<and> eventEnd scenario_runtime scenario_event = Some 1755685800000
   \<and> eventStart scenario_runtime scenario_all_day = Some 1755648000000
   \<and> eventEnd scenario_runtime scenario_all_day = Some 1755734400000
   \<and> 1755684000000 \<notin> set (map datetime (available_slots
        (get_availability scenario_runtime (List_Returns (Some [scenario_event])) ''2025-08-20'' (Some ''60''))))
   \<and> 1755680400000 \<in> set (map datetime (available_slots
        (get_availability scenario_runtime (List_Returns (Some [scenario_event])) ''2025-08-20'' (Some ''60''))))
   \<and> 1755680400000 \<notin> set (map datetime (available_slots
        (get_availability scenario_runtime (List_Returns (Some [scenario_event, scenario_all_day]))
           ''2025-08-20'' (Some ''60''))))"
proof -
  have h1: "(10, 0) \<in> set grid" and k1: "(9, 0) \<in> set grid"
    by (simp_all add: grid_def upto.simps)
  have h2: "slotStart scenario_runtime ''2025-08-20'' 10 0 = Some 1755684000000"
    and k2: "slotStart scenario_runtime ''2025-08-20'' 9 0 = Some 1755680400000"
    by (simp_all add: scenario_simps)
  have h3: "parsed_duration scenario_runtime (Some ''60'') = Some 60"
    by (simp add: scenario_simps)
  have h4: "num_le (getHours scenario_runtime (slotEnd (Some 1755684000000) (Some 60))) wh_end"
    and k4: "num_le (getHours scenario_runtime (slotEnd (Some 1755680400000) (Some 60))) wh_end"
    by (simp_all add: scenario_simps)
  have h5: "startOfDay scenario_runtime ''2025-08-20'' = Some 1755648000000"
    and h6: "endOfDay scenario_runtime ''2025-08-20'' = Some 1755734399999"
    by (simp_all add: scenario_simps)
  have s: "eventStart scenario_runtime scenario_event = Some 1755684000000"
    and e: "eventEnd scenario_runtime scenario_event = Some 1755685800000"
    and sa: "eventStart scenario_runtime scenario_all_day = Some 1755648000000"
    and ea: "eventEnd scenario_runtime scenario_all_day = Some 1755734400000"
    by (simp_all add: scenario_simps scenario_all_day_def)
  have dropped: "1755684000000 \<notin> set (map datetime (available_slots
        (get_availability scenario_runtime (List_Returns (Some [scenario_event])) ''2025-08-20'' (Some ''60''))))"
    using slot_dropped_iff_overlap [OF h1 h2 h3 h4 h5 h6, of "[scenario_event]"] s e by simp
  have kept: "1755680400000 \<in> set (map datetime (available_slots
        (get_availability scenario_runtime (List_Returns (Some [scenario_event])) ''2025-08-20'' (Some ''60''))))"
    using slot_dropped_iff_overlap [OF k1 k2 h3 k4 h5 h6, of "[scenario_event]"] s e by simp
  have all_day: "1755680400000 \<notin> set (map datetime (available_slots
        (get_availability scenario_runtime (List_Returns (Some [scenario_event, scenario_all_day]))
           ''2025-08-20'' (Some ''60''))))"
    using slot_dropped_iff_overlap [OF k1 k2 h3 k4 h5 h6, of "[scenario_event, scenario_all_day]"] s e sa ea
    by simp
  show ?thesis
    using h1 h2 k1 k2 h3 h4 k4 h5 h6 s e sa ea dropped kept all_day by simp
qed

text \<open>
  C7. For the date 2025-08-20 with duration 60 and no busy events the handler returns 18
  slots, with the start times 09:00 to 17:30 in steps of 30 minutes, in ascending order.
  This holds whatever the time zone of the server is.
\<close>

theorem scenario_sixty_minutes_no_events:
  assumes "dateParse rt ''2025-08-20'' = Some 1755648000000"
    and "parseInt rt ''60'' = Some 60"
    and "abs (tzOffset rt) \<le> 86400000"
    and "existingEvents rt ''2025-08-20'' cal = []"
  shows "map time (available_slots (get_availability rt cal ''2025-08-20'' (Some ''60''))) =
           [''09:00'', ''09:30'', ''10:00'', ''10:30'', ''11:00'', ''11:30'', ''12:00'', ''12:30'',
            ''13:00'', ''13:30'', ''14:00'', ''14:30'', ''15:00'', ''15:30'', ''16:00'', ''16:30'',
            ''17:00'', ''17:30'']
         \<and> map datetime (available_slots (get_availability rt cal ''2025-08-20'' (Some ''60''))) =
           map (\<lambda>k. ((1755648000000 + tzOffset rt) div msPerDay) * msPerDay - tzOffset rt
                      + 9 * msPerHour + k * (30 * msPerMinute)) [0..17]
         \<and> length (available_slots (get_availability rt cal ''2025-08-20'' (Some ''60''))) = 18"
proof -
  have c: "candidate_slot rt ''2025-08-20'' (Some 60) (h, m) =
           [\<lparr>time = pad2 h @ '':'' @ pad2 m, available = True,
             datetime = ((1755648000000 + tzOffset rt) div msPerDay) * msPerDay + h * msPerHour + m * msPerMinute - tzOffset rt\<rparr>]"
    if "9 \<le> h" "h \<le> 17" "m = 0 \<or> m = 30" for h m
    using assms(1) _ assms(3) that by (rule candidate_slot_hour) simp
  have "available_slots (get_availability rt cal ''2025-08-20'' (Some ''60'')) = candidate_slots rt ''2025-08-20'' (Some 60)"
    using assms(2,4)
    by (simp add: get_availability_def available_slots_def parsed_duration_def availableSlots_grid
        slot_step_no_events candidate_slots_def)
  also have "\<dots> = map (\<lambda>hm. \<lparr>time = pad2 (fst hm) @ '':'' @ pad2 (snd hm), available = True,
             datetime = ((1755648000000 + tzOffset rt) div msPerDay) * msPerDay + fst hm * msPerHour + snd hm * msPerMinute - tzOffset rt\<rparr>) grid"
    by (simp add: candidate_slots_def grid_def upto.simps c)
  finally have r: "available_slots (get_availability rt cal ''2025-08-20'' (Some ''60'')) = map (\<lambda>hm. \<lparr>time = pad2 (fst hm) @ '':'' @ pad2 (snd hm), available = True,
             datetime = ((1755648000000 + tzOffset rt) div msPerDay) * msPerDay + fst hm * msPerHour + snd hm * msPerMinute - tzOffset rt\<rparr>) grid" .
  show ?thesis
    unfolding r by (simp add: grid_def upto.simps pad2_def digit_char_def msPerHour_def msPerMinute_def)
qed

theorem scenario_sixty_minutes_no_events_witness:
  "dateParse scenario_runtime ''2025-08-20'' = Some 1755648000000
   \<and> parseInt scenario_runtime ''60'' = Some 60
   \<and> abs (tzOffset scenario_runtime) \<le> 86400000
   \<and> existingEvents scenario_runtime ''2025-08-20'' (List_Returns (Some [])) = []
   \<and> map time (available_slots (get_availability scenario_runtime (List_Returns (Some [])) ''2025-08-20'' (Some ''60''))) =
           [''09:00'', ''09:30'', ''10:00'', ''10:30'', ''11:00'', ''11:30'', ''12:00'', ''12:30'',
            ''13:00'', ''13:30'', ''14:00'', ''14:30'', ''15:00'', ''15:30'', ''16:00'', ''16:30'',
            ''17:00'', ''17:30'']
   \<and> length (available_slots (get_availability scenario_runtime (List_Returns (Some [])) ''2025-08-20'' (Some ''60''))) = 18"
proof -
  have h1: "dateParse scenario_runtime ''2025-08-20'' = Some 1755648000000"
    by (simp add: scenario_runtime_def)
  have h2: "parseInt scenario_runtime ''60'' = Some 60"
    by (simp add: scenario_runtime_def)
  have h3: "abs (tzOffset scenario_runtime) \<le> 86400000"
    by (simp add: scenario_runtime_def)
  have h4: "existingEvents scenario_runtime ''2025-08-20'' (List_Returns (Some [])) = []"
    by (simp add: existingEvents_def split: option.splits)
  show ?thesis
    using h1 h2 h3 h4 scenario_sixty_minutes_no_events [OF h1 h2 h3 h4] by simp
qed

text \<open>
  C1. The claim is that every returned slot starts at or after 09:00 and ends, after the
  duration, at or before 18:00. The handler compares only the hour of the slot's end with
  18, so an end between 18:01 and 18:59 passes: for the date 2025-08-20 with duration
  60 and no busy events, the slot at 17:30 is returned, and it ends at 18:30.
\<close>

theorem slot_may_end_after_closing:
  "workingHoursEnd scenario_runtime ''2025-08-20'' = Some 1755712800000
   \<and> \<lparr>time = ''17:30'', available = True, datetime = 1755711000000\<rparr>
       \<in> set (available_slots (get_availability scenario_runtime (List_Returns (Some [])) ''2025-08-20'' (Some ''60'')))
   \<and> 1755711000000 + 60 * msPerMinute > (1755712800000::int)"
  by (simp add: scenario_simps)

text \<open>
  The other bound does hold: no returned slot starts before the start of the working
  hours.
\<close>

lemma returned_slot_not_before_opening:
  assumes "sl \<in> set (available_slots (get_availability rt cal dt q))"
    and "workingHoursStart rt dt = Some w"
  shows "w \<le> datetime sl"
proof -
  from assms(1) have "sl \<in> set (availableSlots rt dt (parsed_duration rt q) (existingEvents rt dt cal))"
    by (simp add: get_availability_def available_slots_def)
  then obtain hm where hm: "hm \<in> set grid"
    and c: "sl \<in> set (candidate_slot rt dt (parsed_duration rt q) hm)"
    unfolding mem_availableSlots by blast
  from c have s: "slotStart rt dt (fst hm) (snd hm) = Some (datetime sl)"
    unfolding mem_candidate_slot by blast
  from hm have b: "9 \<le> fst hm" "0 \<le> snd hm"
    using grid_bounds [of hm] by auto
  then have "9 * msPerHour \<le> fst hm * msPerHour + snd hm * msPerMinute"
    by (simp add: msPerHour_def msPerMinute_def)
  with s assms(2) show ?thesis
    by (auto simp add: slotStart_def workingHoursStart_def setHours_def TimeClip_def wh_start_def
        split: option.splits if_splits)
qed

text \<open>
  C6. The claim is that a duration which fits before 18:00 at no candidate start gives an
  empty sequence. With duration 600 every candidate start ends after 18:00, but the hour of
  an end past midnight is small again: the starts from 14:00 on end between 00:00 and
  03:30 of the next day, pass the test of the handler, and are returned.
\<close>

theorem long_duration_still_yields_slots:
  "list_all (\<lambda>hm. date_less (workingHoursEnd scenario_runtime ''2025-08-20'')
                     (slotEnd (slotStart scenario_runtime ''2025-08-20'' (fst hm) (snd hm)) (Some 600))) grid
   \<and> parsed_duration scenario_runtime (Some ''600'') = Some 600
   \<and> map time (available_slots (get_availability scenario_runtime (List_Returns (Some [])) ''2025-08-20'' (Some ''600'')))
       = [''14:00'', ''14:30'', ''15:00'', ''15:30'', ''16:00'', ''16:30'', ''17:00'', ''17:30'']"
  by (simp add: scenario_simps)

text \<open>
  Nor is 600 a special value. The candidate starts span eight and a half hours, and the
  hours above 18 only five, so for a valid date and no busy events the handler returns at
  least one slot whatever the duration is: the slot at 09:00 or the slot at 14:00.
\<close>

lemma never_empty_without_events:
  assumes "dateParse rt dt = Some t0"
    and "abs t0 \<le> 8000000000000000"
    and "abs (tzOffset rt) \<le> 86400000"
    and "parsed_duration rt q = Some M"
    and "abs M \<le> 1000000000"
    and "existingEvents rt dt cal = []"
  shows "available_slots (get_availability rt cal dt q) \<noteq> []"
proof -
  have "(9 + k) mod 24 \<le> 18 \<or> (14 + k) mod 24 \<le> 18" for k :: int
    by presburger
  then have "(9 + M div 60) mod 24 \<le> 18 \<or> (14 + M div 60) mod 24 \<le> 18"
    by blast
  then obtain h where h: "h = 9 \<or> h = 14" and fits: "(h + M div 60) mod 24 \<le> 18"
    by blast
  from h have hb: "9 \<le> h" "h \<le> 17"
    by auto
  have "candidate_slot rt dt (Some M) (h, 0) \<noteq> []"
    using assms(1,2,3,5) hb fits by (rule candidate_slot_nonempty)
  moreover have "(h, 0) \<in> set grid"
    using h by (auto simp add: grid_def upto.simps)
  ultimately have "candidate_slots rt dt (Some M) \<noteq> []"
    by (auto simp add: candidate_slots_def)
  then show ?thesis
    using assms(4,6)
    by (simp add: get_availability_def available_slots_def availableSlots_grid slot_step_no_events candidate_slots_def)
qed

section \<open>Properties of the id generator\<close>

lemma position_upper: "k < 36 \<Longrightarrow> position (toUpperCase_char (digits36 ! k)) upper36 = k"
proof -
  have "\<forall>k\<in>set [0..<36]. position (toUpperCase_char (digits36 ! k)) upper36 = k"
    by (simp add: digits36_def upper36_def toUpperCase_char_def upt_rec)
  then show "k < 36 \<Longrightarrow> position (toUpperCase_char (digits36 ! k)) upper36 = k" by simp
qed

lemma upper_digit: "c \<in> set digits36 \<Longrightarrow> toUpperCase_char c \<in> set upper36"
  by (auto simp add: digits36_def upper36_def toUpperCase_char_def)

lemma digit_nth: "k < 36 \<Longrightarrow> digits36 ! k \<in> set digits36"
  by (rule nth_mem) (simp add: digits36_def)

lemma fromUpper36_snoc: "fromUpper36 (s @ [c]) = fromUpper36 s * 36 + position c upper36"
  by (simp add: fromUpper36_def)

lemma fromUpper36_toString36: "fromUpper36 (toUpperCase (toString36 n)) = n"
proof (induction n rule: toString36.induct)
  case (1 n)
  show ?case
  proof (cases "n < 36")
    case True
    then show ?thesis by (subst toString36.simps) (simp add: toUpperCase_def fromUpper36_def position_upper)
  next
    case False
    have "n mod 36 < 36" by simp
    with 1 False show ?thesis
      by (subst toString36.simps) (simp add: toUpperCase_def fromUpper36_snoc position_upper)
  qed
qed

lemma toString36_chars: "set (toUpperCase (toString36 n)) \<subseteq> set upper36"
proof (induction n rule: toString36.induct)
  case (1 n)
  show ?case
  proof (cases "n < 36")
    case True
    then show ?thesis by (subst toString36.simps) (simp add: toUpperCase_def upper_digit digit_nth)
  next
    case False
    have "n mod 36 < 36" by simp
    with 1 False show ?thesis
      by (subst toString36.simps) (simp add: toUpperCase_def upper_digit digit_nth)
  qed
qed

lemma toString36_nonempty: "toString36 n \<noteq> []"
  by (subst toString36.simps) simp

lemma random_suffix:
  assumes "radix36_fraction r"
  shows "set (toUpperCase (substring 2 6 r)) \<subseteq> set upper36 \<and> length (toUpperCase (substring 2 6 r)) \<le> 4"
proof -
  have "set (drop 2 r) \<subseteq> set digits36"
    using assms by (auto simp add: radix36_fraction_def list_all_iff)
  moreover have "set (take 4 (drop 2 r)) \<subseteq> set (drop 2 r)"
    by (rule set_take_subset)
  ultimately have "set (substring 2 6 r) \<subseteq> set digits36"
    by (simp add: substring_def)
  then show ?thesis
    using upper_digit by (auto simp add: toUpperCase_def substring_def)
qed

text \<open>
  C9. Every identifier is the prefix \<^verbatim>\<open>4EV\<close>, a separator \<^verbatim>\<open>-\<close>, the timestamp in upper-case
  base 36, a separator \<^verbatim>\<open>-\<close>, and a random suffix of at most four upper-case base-36
  digits. The timestamp part is never empty and reads back as the clock value. The
  generator is a total function of the clock and the random text: it always returns.
\<close>

theorem booking_id_format:
  assumes "radix36_fraction r"
  shows "\<exists>ts rnd. generateBookingId n r = ''4EV'' @ ''-'' @ ts @ ''-'' @ rnd
           \<and> ts \<noteq> [] \<and> set ts \<subseteq> set upper36 \<and> fromUpper36 ts = n
           \<and> length rnd \<le> 4 \<and> set rnd \<subseteq> set upper36"
proof -
  let ?ts = "toUpperCase (toString36 n)"
  let ?rnd = "toUpperCase (substring 2 6 r)"
  have "generateBookingId n r = ''4EV'' @ ''-'' @ ?ts @ ''-'' @ ?rnd"
    by (simp add: generateBookingId_def)
  moreover have "?ts \<noteq> []"
    by (simp add: toUpperCase_def toString36_nonempty)
  moreover note toString36_chars [of n] fromUpper36_toString36 [of n] random_suffix [OF assms]
  ultimately show ?thesis
    by blast
qed

theorem booking_id_format_witness:
  "radix36_fraction ''0.4fzyo82mvyr''
   \<and> (\<exists>ts rnd. generateBookingId 1755700000000 ''0.4fzyo82mvyr'' = ''4EV'' @ ''-'' @ ts @ ''-'' @ rnd
           \<and> ts \<noteq> [] \<and> set ts \<subseteq> set upper36 \<and> fromUpper36 ts = 1755700000000
           \<and> length rnd \<le> 4 \<and> set rnd \<subseteq> set upper36)
   \<and> generateBookingId 1755700000000 ''0.4fzyo82mvyr'' = ''4EV-MEK2G64G-4FZY''"
proof -
  have h: "radix36_fraction ''0.4fzyo82mvyr''"
    by (simp add: radix36_fraction_def digits36_def)
  have e: "generateBookingId 1755700000000 ''0.4fzyo82mvyr'' = ''4EV-MEK2G64G-4FZY''"
    by (simp add: generateBookingId_def toString36.simps toUpperCase_def toUpperCase_char_def substring_def digits36_def)
  show ?thesis
    using h e booking_id_format [OF h, of 1755700000000] by simp
qed

section \<open>Properties of the booking handler\<close>

text \<open>The four ways a request can go, each with its response, its store and its steps.\<close>

lemmas pipeline_defs =
  post_bookings_def booking_pipeline_def run_validation_def generate_id_def calendar_try_def
  insert_booking_def audit_log_def sendConfirmationEmail_def sendBusinessNotification_def
  respond_def record_step_def Let_def

lemmas booking_simps =
  scenario_runtime_def scenario_lib_def scenario_body_def scenario_world_def empty_store_def
  validateBooking_def field_issues_def elements_def duration_issues_def duration_items_def item_ok_def
  is_digit_def event_types_def js_String_def
  booking_eventStart_def toDate_def toDate_field_def dateStr_def duration_value_def item_value_def
  booking_eventEnd_def TimeClip_def resource_builds_def is_string_def insert_fails_def status_def
  generateBookingId_def toString36.simps toUpperCase_def toUpperCase_char_def substring_def digits36_def

lemma post_bookings_rejected:
  assumes "validateBooking lib b \<noteq> []"
  shows "post_bookings rt lib w requestId st b =
           (Validation_Failed (validateBooking lib b),
            (if audit_throws w then st
             else st\<lparr>audit_logs := audit_logs st @
                        [\<lparr>request_id = requestId, event = ''validation_failed'',
                          details = Issues (validateBooking lib b)\<rparr>]\<rparr>),
            [Validate, Audit ''validation_failed'' (\<not> audit_throws w), Respond 400])"
  using assms by (simp add: pipeline_defs status_def)

lemma post_bookings_unparsable:
  assumes "validateBooking lib b = []" and "booking_eventStart rt b = None"
  shows "post_bookings rt lib w requestId st b = (Invalid_DateTime, st, [Validate, Generate_Id, Respond 400])"
  using assms by (simp add: pipeline_defs status_def)

lemma post_bookings_persisted:
  assumes "validateBooking lib b = []"
    and "booking_eventStart rt b = Some es"
    and "\<not> insert_fails w st (generateBookingId (now w) (random36 w))"
  shows "post_bookings rt lib w requestId st b =
           (let bookingId = generateBookingId (now w) (random36 w);
                builds = resource_builds (eventType b) (booking_eventEnd es (duration_value (duration b)));
                calendarEventId = (if builds then event_id (calendar_insert w) else None)
            in (Booking_Confirmed bookingId calendarEventId,
                st\<lparr>bookings := bookings st @ [new_row rt lib b bookingId calendarEventId],
                   audit_logs := audit_logs st @
                     (if audit_throws w then []
                      else [\<lparr>request_id = requestId, event = ''booking_created'',
                             details = Created bookingId (sanitize (normalizeEmail lib) (clientEmail b))\<rparr>])\<rparr>,
                [Validate, Generate_Id] @
                (if builds then [Calendar_Insert (returns_event (calendar_insert w))] else []) @
                [Persist_Booking True, Audit ''booking_created'' (\<not> audit_throws w),
                 Notify_Client (is_string (eventType b) \<and> \<not> confirmation_fails w),
                 Notify_Business (\<not> notification_fails w), Respond 200]))"
  using assms by (simp add: pipeline_defs status_def new_row_def)

lemma post_bookings_refused:
  assumes "validateBooking lib b = []"
    and "booking_eventStart rt b = Some es"
    and "insert_fails w st (generateBookingId (now w) (random36 w))"
  shows "post_bookings rt lib w requestId st b =
           (Booking_Failed, st,
            [Validate, Generate_Id] @
            (if resource_builds (eventType b) (booking_eventEnd es (duration_value (duration b)))
             then [Calendar_Insert (returns_event (calendar_insert w))] else []) @
            [Persist_Booking False, Respond 500])"
  using assms by (simp add: pipeline_defs status_def new_row_def)


lemma scenario_run:
  "post_bookings scenario_runtime scenario_lib scenario_world (Some ''req-1'') empty_store scenario_body =
     (Booking_Confirmed ''4EV-MEK2G64G-4FZY'' None,
      \<lparr>bookings = [new_row scenario_runtime scenario_lib scenario_body ''4EV-MEK2G64G-4FZY'' None],
       audit_logs = [\<lparr>request_id = Some ''req-1'', event = ''booking_created'',
                      details = Created ''4EV-MEK2G64G-4FZY'' (Text ''ana@example.com'')\<rparr>]\<rparr>,
      [Validate, Generate_Id, Calendar_Insert False, Persist_Booking True, Audit ''booking_created'' True,
       Notify_Client True, Notify_Business True, Respond 200])"
proof -
  have v: "validateBooking scenario_lib scenario_body = []"
    by (simp add: booking_simps)
  have e: "booking_eventStart scenario_runtime scenario_body = Some 1755684000000"
    by (simp add: booking_simps)
  have i: "generateBookingId (now scenario_world) (random36 scenario_world) = ''4EV-MEK2G64G-4FZY''"
    by (simp add: booking_simps)
  have f: "\<not> insert_fails scenario_world empty_store (generateBookingId (now scenario_world) (random36 scenario_world))"
    by (simp add: insert_fails_def scenario_world_def empty_store_def)
  show ?thesis
    unfolding post_bookings_persisted [OF v e f] i
    by (simp add: booking_simps event_id_def returns_event_def sanitize_def Let_def)
qed

text \<open>
  C5. The claim is that every request whose \<open>eventType\<close> is not one of the four enumerated
  values is answered with status 400. The check of the handler runs on the elements of an
  array, so an empty array, or an array of enumerated values, raises no issue although it
  is none of the four values: the request with \<open>eventType: []\<close> passes the validation, a
  booking row is written, and the answer is 200.
\<close>

theorem array_event_type_not_rejected:
  "eventType (scenario_body\<lparr>eventType := Items []\<rparr>) = Items []
   \<and> validateBooking scenario_lib (scenario_body\<lparr>eventType := Items []\<rparr>) = []
   \<and> validateBooking scenario_lib (scenario_body\<lparr>eventType := Items [''wedding'', ''consultation'']\<rparr>) = []
   \<and> post_bookings scenario_runtime scenario_lib scenario_world (Some ''req-1'') empty_store
        (scenario_body\<lparr>eventType := Items []\<rparr>) =
       (Booking_Confirmed ''4EV-MEK2G64G-4FZY'' None,
        \<lparr>bookings = [new_row scenario_runtime scenario_lib (scenario_body\<lparr>eventType := Items []\<rparr>)
                        ''4EV-MEK2G64G-4FZY'' None],
         audit_logs = [\<lparr>request_id = Some ''req-1'', event = ''booking_created'',
                        details = Created ''4EV-MEK2G64G-4FZY'' (Text ''ana@example.com'')\<rparr>]\<rparr>,
        [Validate, Generate_Id, Persist_Booking True, Audit ''booking_created'' True,
         Notify_Client False, Notify_Business True, Respond 200])
   \<and> status (Booking_Confirmed ''4EV-MEK2G64G-4FZY'' None) = 200"
proof -
  let ?b = "scenario_body\<lparr>eventType := Items []\<rparr>"
  have v: "validateBooking scenario_lib ?b = []"
    by (simp add: booking_simps)
  have v2: "validateBooking scenario_lib (scenario_body\<lparr>eventType := Items [''wedding'', ''consultation'']\<rparr>) = []"
    by (simp add: booking_simps)
  have e: "booking_eventStart scenario_runtime ?b = Some 1755684000000"
    by (simp add: booking_simps)
  have i: "generateBookingId (now scenario_world) (random36 scenario_world) = ''4EV-MEK2G64G-4FZY''"
    by (simp add: booking_simps)
  have f: "\<not> insert_fails scenario_world empty_store (generateBookingId (now scenario_world) (random36 scenario_world))"
    by (simp add: insert_fails_def scenario_world_def empty_store_def)
  have "post_bookings scenario_runtime scenario_lib scenario_world (Some ''req-1'') empty_store ?b =
       (Booking_Confirmed ''4EV-MEK2G64G-4FZY'' None,
        \<lparr>bookings = [new_row scenario_runtime scenario_lib ?b ''4EV-MEK2G64G-4FZY'' None],
         audit_logs = [\<lparr>request_id = Some ''req-1'', event = ''booking_created'',
                        details = Created ''4EV-MEK2G64G-4FZY'' (Text ''ana@example.com'')\<rparr>]\<rparr>,
        [Validate, Generate_Id, Persist_Booking True, Audit ''booking_created'' True,
         Notify_Client False, Notify_Business True, Respond 200])"
    unfolding post_bookings_persisted [OF v e f] i
    by (simp add: booking_simps event_id_def returns_event_def sanitize_def Let_def)
  with v v2 show ?thesis
    by (simp add: status_def scenario_body_def)
qed

text \<open>
  A request is rejected as soon as one text that the check reads is outside the
  enumerated set, which covers every \<open>eventType\<close> that is a single value: the answer is 400
  with an issue for \<open>eventType\<close>, no booking row is written, and the only steps are the
  validation, the write of the \<open>validation_failed\<close> audit row and the response.
\<close>

lemma unknown_event_type_rejected:
  assumes "list_ex (\<lambda>s. s \<notin> set event_types) (elements (eventType b))"
    and "post_bookings rt lib w requestId st b = (resp, st', steps)"
  shows "status resp = 400 \<and> \<not> success resp
         \<and> (\<exists>issues. errors resp = Some issues
               \<and> \<lparr>param = ''eventType'', msg = ''Invalid value''\<rparr> \<in> set issues
               \<and> audit_logs st' =
                   (if audit_throws w then audit_logs st
                    else audit_logs st @ [\<lparr>request_id = requestId, event = ''validation_failed'', details = Issues issues\<rparr>]))
         \<and> bookings st' = bookings st
         \<and> steps = [Validate, Audit ''validation_failed'' (\<not> audit_throws w), Respond 400]"
proof -
  let ?issues = "validateBooking lib b"
  from assms(1) obtain s where "s \<in> set (elements (eventType b))" and "s \<notin> set event_types"
    by (auto simp add: list_ex_iff)
  then have "\<lparr>param = ''eventType'', msg = ''Invalid value''\<rparr>
               \<in> set (field_issues ''eventType'' (\<lambda>s. s \<in> set event_types) (elements (eventType b)))"
    by (auto simp add: field_issues_def)
  then have mem: "\<lparr>param = ''eventType'', msg = ''Invalid value''\<rparr> \<in> set ?issues"
    by (simp add: validateBooking_def)
  then have ne: "?issues \<noteq> []"
    by auto
  from post_bookings_rejected [OF ne, where rt = rt and w = w and requestId = requestId and st = st] assms(2)
  have r: "resp = Validation_Failed ?issues"
    and s: "st' = (if audit_throws w then st
             else st\<lparr>audit_logs := audit_logs st @
                        [\<lparr>request_id = requestId, event = ''validation_failed'', details = Issues ?issues\<rparr>]\<rparr>)"
    and t: "steps = [Validate, Audit ''validation_failed'' (\<not> audit_throws w), Respond 400]"
    by simp_all
  show ?thesis
    using mem by (simp add: r s t status_def success_def errors_def)
qed

lemma brunch_rejected:
  "fst (post_bookings scenario_runtime scenario_lib scenario_world (Some ''req-1'') empty_store
         (scenario_body\<lparr>eventType := Text ''brunch''\<rparr>)) =
     Validation_Failed [\<lparr>param = ''eventType'', msg = ''Invalid value''\<rparr>]"
proof -
  have "validateBooking scenario_lib (scenario_body\<lparr>eventType := Text ''brunch''\<rparr>) =
          [\<lparr>param = ''eventType'', msg = ''Invalid value''\<rparr>]"
    by (simp add: booking_simps)
  then show ?thesis
    by (simp add: post_bookings_rejected)
qed

text \<open>
  An array is let through for \<open>duration\<close> in the same way: both elements of \<open>[60, 90]\<close>
  pass the check, the array is no number, the event has no valid end, the calendar is not
  called, and the booking is made.
\<close>

lemma array_duration_accepted:
  "validateBooking scenario_lib
     (scenario_body\<lparr>duration := Duration_Items [Int_Literal 60, Int_Literal 90]\<rparr>) = []
   \<and> fst (post_bookings scenario_runtime scenario_lib scenario_world (Some ''req-1'') empty_store
          (scenario_body\<lparr>duration := Duration_Items [Int_Literal 60, Int_Literal 90]\<rparr>)) =
       Booking_Confirmed ''4EV-MEK2G64G-4FZY'' None
   \<and> snd (snd (post_bookings scenario_runtime scenario_lib scenario_world (Some ''req-1'') empty_store
          (scenario_body\<lparr>duration := Duration_Items [Int_Literal 60, Int_Literal 90]\<rparr>))) =
       [Validate, Generate_Id, Persist_Booking True, Audit ''booking_created'' True,
        Notify_Client True, Notify_Business True, Respond 200]"
proof -
  let ?b = "scenario_body\<lparr>duration := Duration_Items [Int_Literal 60, Int_Literal 90]\<rparr>"
  have v: "validateBooking scenario_lib ?b = []"
    by (simp add: booking_simps)
  have e: "booking_eventStart scenario_runtime ?b = Some 1755684000000"
    by (simp add: booking_simps)
  have i: "generateBookingId (now scenario_world) (random36 scenario_world) = ''4EV-MEK2G64G-4FZY''"
    by (simp add: booking_simps)
  have f: "\<not> insert_fails scenario_world empty_store (generateBookingId (now scenario_world) (random36 scenario_world))"
    by (simp add: insert_fails_def scenario_world_def empty_store_def)
  show ?thesis
    unfolding post_bookings_persisted [OF v e f] i
    using v by (simp add: booking_simps event_id_def returns_event_def Let_def)
qed

text \<open>
  C10. A request that passes the validation but whose date and time do not parse to a
  valid instant is answered with status 400 and the single error text
  \<^verbatim>\<open>Invalid date/time format\<close>, not with a list of issues. The id has been generated, the
  calendar is not tried, and the store is unchanged: no booking row and no audit row.
\<close>

theorem unparsable_date_time_rejected:
  assumes "validateBooking lib b = []"
    and "booking_eventStart rt b = None"
    and "post_bookings rt lib w requestId st b = (resp, st', steps)"
  shows "status resp = 400 \<and> \<not> success resp
         \<and> error_text resp = Some ''Invalid date/time format'' \<and> errors resp = None
         \<and> st' = st
         \<and> steps = [Validate, Generate_Id, Respond 400]"
  using post_bookings_unparsable [OF assms(1,2), where w = w and requestId = requestId and st = st] assms(3)
  by (auto simp add: status_def success_def error_text_def errors_def)

theorem unparsable_date_time_rejected_witness:
  "validateBooking scenario_lib (scenario_body\<lparr>eventDate := Text ''2025-W34-3''\<rparr>) = []
   \<and> booking_eventStart scenario_runtime (scenario_body\<lparr>eventDate := Text ''2025-W34-3''\<rparr>) = None
   \<and> post_bookings scenario_runtime scenario_lib scenario_world (Some ''req-1'') empty_store
        (scenario_body\<lparr>eventDate := Text ''2025-W34-3''\<rparr>) =
       (Invalid_DateTime, empty_store, [Validate, Generate_Id, Respond 400])
   \<and> error_text Invalid_DateTime = Some ''Invalid date/time format''"
proof -
  have h1: "validateBooking scenario_lib (scenario_body\<lparr>eventDate := Text ''2025-W34-3''\<rparr>) = []"
    by (simp add: booking_simps)
  have h2: "booking_eventStart scenario_runtime (scenario_body\<lparr>eventDate := Text ''2025-W34-3''\<rparr>) = None"
    by (simp add: booking_simps)
  have r: "post_bookings scenario_runtime scenario_lib scenario_world (Some ''req-1'') empty_store
        (scenario_body\<lparr>eventDate := Text ''2025-W34-3''\<rparr>) =
       (Invalid_DateTime, empty_store, [Validate, Generate_Id, Respond 400])"
    using h1 h2 by (rule post_bookings_unparsable)
  show ?thesis
    using h1 h2 r unparsable_date_time_rejected [OF h1 h2 r] by simp
qed

text \<open>
  C8, as amended. Every request that is answered with the success body has made its calls
  in this order: validation, id generation, the call of the calendar when the event
  resource can be built, the insert of the booking, the write of the \<open>booking_created\<close>
  audit row, the mail to the client, the mail to the business, the response. The audit
  write is called before the two mails, not after them. One booking row is written, and
  one audit row unless its write throws.
\<close>

theorem pipeline_step_order:
  assumes "post_bookings rt lib w requestId st b = (resp, st', steps)"
    and "success resp"
  shows "\<exists>es. booking_eventStart rt b = Some es
           \<and> steps =
               [Validate, Generate_Id] @
               (if resource_builds (eventType b) (booking_eventEnd es (duration_value (duration b)))
                then [Calendar_Insert (returns_event (calendar_insert w))] else []) @
               [Persist_Booking True, Audit ''booking_created'' (\<not> audit_throws w),
                Notify_Client (is_string (eventType b) \<and> \<not> confirmation_fails w),
                Notify_Business (\<not> notification_fails w), Respond 200]
           \<and> length (bookings st') = length (bookings st) + 1
           \<and> length (audit_logs st') = length (audit_logs st) + (if audit_throws w then 0 else 1)"
proof (cases "validateBooking lib b = []")
  case False
  from post_bookings_rejected [OF False, where rt = rt and w = w and requestId = requestId and st = st] assms show ?thesis
    by (simp add: success_def)
next
  case valid: True
  show ?thesis
  proof (cases "booking_eventStart rt b")
    case None
    from post_bookings_unparsable [OF valid None, where w = w and requestId = requestId and st = st] assms show ?thesis
      by (simp add: success_def)
  next
    case (Some es)
    show ?thesis
    proof (cases "insert_fails w st (generateBookingId (now w) (random36 w))")
      case True
      from post_bookings_refused [OF valid Some True, where requestId = requestId] assms show ?thesis
        by (simp add: success_def)
    next
      case False
      from post_bookings_persisted [OF valid Some False, where requestId = requestId] assms(1) Some show ?thesis
        by (auto simp add: Let_def)
    qed
  qed
qed

theorem pipeline_step_order_witness:
  "post_bookings scenario_runtime scenario_lib scenario_world (Some ''req-1'') empty_store scenario_body =
     (Booking_Confirmed ''4EV-MEK2G64G-4FZY'' None,
      \<lparr>bookings = [new_row scenario_runtime scenario_lib scenario_body ''4EV-MEK2G64G-4FZY'' None],
       audit_logs = [\<lparr>request_id = Some ''req-1'', event = ''booking_created'',
                      details = Created ''4EV-MEK2G64G-4FZY'' (Text ''ana@example.com'')\<rparr>]\<rparr>,
      [Validate, Generate_Id, Calendar_Insert False, Persist_Booking True, Audit ''booking_created'' True,
       Notify_Client True, Notify_Business True, Respond 200])
   \<and> success (Booking_Confirmed ''4EV-MEK2G64G-4FZY'' None)
   \<and> booking_eventStart scenario_runtime scenario_body = Some 1755684000000
   \<and> resource_builds (eventType scenario_body)
        (booking_eventEnd 1755684000000 (duration_value (duration scenario_body)))"
proof -
  have s: "success (Booking_Confirmed ''4EV-MEK2G64G-4FZY'' None)"
    by (simp add: success_def)
  have e: "booking_eventStart scenario_runtime scenario_body = Some 1755684000000"
    by (simp add: booking_simps)
  have b: "resource_builds (eventType scenario_body)
        (booking_eventEnd 1755684000000 (duration_value (duration scenario_body)))"
    by (simp add: booking_simps)
  show ?thesis
    using s e b scenario_run pipeline_step_order [OF scenario_run s] by simp
qed

text \<open>
  The order of the claim as stated, with the audit row after the two mails, is not the
  order of the run of the scenario.
\<close>

theorem audit_precedes_notifications:
  "success (fst (post_bookings scenario_runtime scenario_lib scenario_world (Some ''req-1'') empty_store scenario_body))
   \<and> snd (snd (post_bookings scenario_runtime scenario_lib scenario_world (Some ''req-1'') empty_store scenario_body)) \<noteq>
      [Validate, Generate_Id, Calendar_Insert False, Persist_Booking True,
       Notify_Client True, Notify_Business True, Audit ''booking_created'' True, Respond 200]
   \<and> snd (snd (post_bookings scenario_runtime scenario_lib scenario_world (Some ''req-1'') empty_store scenario_body)) =
      [Validate, Generate_Id, Calendar_Insert False, Persist_Booking True,
       Audit ''booking_created'' True, Notify_Client True, Notify_Business True, Respond 200]"
  by (simp add: scenario_run success_def)

text \<open>
  C2. For a request that passes the validation, whose date and time parse, and whose
  booking row the database accepts: if the calendar insertion fails, the response is the
  success body with a null calendar event id, and exactly one booking row is appended,
  with a null calendar event id. The pipeline has gone on to the insert.
\<close>

theorem booking_survives_calendar_failure:
  assumes "validateBooking lib b = []"
    and "booking_eventStart rt b = Some es"
    and "calendar_insert w = Insert_Throws"
    and "\<not> insert_fails w st (generateBookingId (now w) (random36 w))"
    and "post_bookings rt lib w requestId st b = (resp, st', steps)"
  shows "resp = Booking_Confirmed (generateBookingId (now w) (random36 w)) None
         \<and> success resp \<and> status resp = 200
         \<and> (\<exists>row. bookings st' = bookings st @ [row]
               \<and> booking_id row = generateBookingId (now w) (random36 w)
               \<and> calendar_event_id row = None)
         \<and> Persist_Booking True \<in> set steps
         \<and> Calendar_Insert True \<notin> set steps"
proof -
  let ?bid = "generateBookingId (now w) (random36 w)"
  have i: "event_id (calendar_insert w) = None" and r: "\<not> returns_event (calendar_insert w)"
    using assms(3) by (simp_all add: event_id_def returns_event_def)
  from post_bookings_persisted [OF assms(1,2,4), where requestId = requestId] assms(5)
  have resp: "resp = Booking_Confirmed ?bid None"
    and st: "bookings st' = bookings st @ [new_row rt lib b ?bid None]"
    and steps: "Persist_Booking True \<in> set steps" "Calendar_Insert True \<notin> set steps"
    by (auto simp add: Let_def i r)
  moreover have "booking_id (new_row rt lib b ?bid None) = ?bid" "calendar_event_id (new_row rt lib b ?bid None) = None"
    by (simp_all add: new_row_def)
  ultimately show ?thesis
    by (auto simp add: success_def status_def)
qed

theorem booking_survives_calendar_failure_witness:
  "validateBooking scenario_lib scenario_body = []
   \<and> booking_eventStart scenario_runtime scenario_body = Some 1755684000000
   \<and> calendar_insert scenario_world = Insert_Throws
   \<and> \<not> insert_fails scenario_world empty_store (generateBookingId (now scenario_world) (random36 scenario_world))
   \<and> fst (post_bookings scenario_runtime scenario_lib scenario_world (Some ''req-1'') empty_store scenario_body) =
       Booking_Confirmed ''4EV-MEK2G64G-4FZY'' None
   \<and> length (bookings (fst (snd (post_bookings scenario_runtime scenario_lib scenario_world (Some ''req-1'') empty_store scenario_body)))) = 1"
proof -
  have h1: "validateBooking scenario_lib scenario_body = []"
    by (simp add: booking_simps)
  have h2: "booking_eventStart scenario_runtime scenario_body = Some 1755684000000"
    by (simp add: booking_simps)
  have h3: "calendar_insert scenario_world = Insert_Throws"
    by (simp add: scenario_world_def)
  have h4: "\<not> insert_fails scenario_world empty_store (generateBookingId (now scenario_world) (random36 scenario_world))"
    by (simp add: insert_fails_def scenario_world_def empty_store_def)
  show ?thesis
    using h1 h2 h3 h4 booking_survives_calendar_failure [OF h1 h2 h3 h4 scenario_run] by (simp add: scenario_run)
qed

text \<open>
  The calendar is never fatal: whatever the collaborator answers, the response has the
  same \<open>success\<close> and the store the same number of booking rows.
\<close>

lemma calendar_outcome_never_decides:
  "success (fst (post_bookings rt lib (w\<lparr>calendar_insert := c\<rparr>) requestId st b)) =
     success (fst (post_bookings rt lib w requestId st b))
   \<and> length (bookings (fst (snd (post_bookings rt lib (w\<lparr>calendar_insert := c\<rparr>) requestId st b)))) =
     length (bookings (fst (snd (post_bookings rt lib w requestId st b))))"
  by (simp add: pipeline_defs insert_fails_def success_def new_row_def split: option.splits)

end
